theory Spec2Isabelle
  imports Main "HOL-Library.AList" "HOL-Library.Char_ord" "HOL-Library.List_Lexorder" "HOL-Library.Sublist"
begin

chapter \<open>The model\<close>

section \<open>Python values\<close>

text \<open>
  Frontmatter values are what \<open>json.loads\<close> and \<open>yaml.safe_load\<close> produce: \<open>None\<close>,
  booleans, integers, floats, strings, lists, dictionaries, and (from YAML) dates and
  datetimes. A float is carried by the text Python prints for it; a dictionary is an
  association list in insertion order, read with \<open>map_of\<close> (first binding of a key).
\<close>

datatype pyval =
    PNone
  | PBool bool
  | PInt int
  | PFloat string
  | PStr string
  | PList "pyval list"
  | PDict "(string \<times> pyval) list"
  | PDate nat nat nat
  | PDateTime nat nat nat nat nat nat

type_synonym pydict = "(string \<times> pyval) list"

text \<open>Truthiness, as \<open>bool(v)\<close>, \<open>not v\<close> and \<open>a or b\<close> read it.\<close>

fun truthy :: "pyval \<Rightarrow> bool" where
  "truthy PNone = False"
| "truthy (PBool b) = b"
| "truthy (PInt i) = (i \<noteq> 0)"
| "truthy (PFloat r) = (r \<noteq> ''0.0'' \<and> r \<noteq> ''-0.0'')"
| "truthy (PStr s) = (s \<noteq> [])"
| "truthy (PList xs) = (xs \<noteq> [])"
| "truthy (PDict kvs) = (kvs \<noteq> [])"
| "truthy (PDate y m d) = True"
| "truthy (PDateTime y m d hh mm ss) = True"

definition py_or :: "pyval \<Rightarrow> pyval \<Rightarrow> pyval" where
  "py_or a b = (if truthy a then a else b)"

text \<open>\<open>d.get(k)\<close> (\<open>None\<close> when the key is missing) and \<open>d.get(k, default)\<close>.\<close>

definition dict_get :: "pydict \<Rightarrow> string \<Rightarrow> pyval" where
  "dict_get d k = (case map_of d k of None \<Rightarrow> PNone | Some v \<Rightarrow> v)"

definition dict_get_default :: "pydict \<Rightarrow> string \<Rightarrow> pyval \<Rightarrow> pyval" where
  "dict_get_default d k dflt = (case map_of d k of None \<Rightarrow> dflt | Some v \<Rightarrow> v)"

definition dict_has :: "pydict \<Rightarrow> string \<Rightarrow> bool" where
  "dict_has d k = (map_of d k \<noteq> None)"

text \<open>
  \<open>d.update(other)\<close>: every binding of \<open>other\<close>, in its order, replaces the value of a
  key already present (which keeps its place) or is appended.
\<close>

fun dict_update :: "pydict \<Rightarrow> pydict \<Rightarrow> pydict" where
  "dict_update d [] = d"
| "dict_update d ((k, v) # kvs) = dict_update (AList.update k v d) kvs"

section \<open>accounts/models.py: the capability policy\<close>

record UserProfile =
  username :: string
  role :: string
  local_group :: string

definition editor_types :: "string list" where
  "editor_types = [''article'', ''briefing'', ''news'', ''local_event'', ''local_news'', ''ecosystem'']"

definition local_types :: "string list" where
  "local_types = [''local_event'', ''local_news'']"

definition contributor_types :: "string list" where
  "contributor_types = [''article'', ''briefing'', ''news'', ''local_event'', ''local_news'']"

definition can_publish_directly :: "UserProfile \<Rightarrow> string \<Rightarrow> pyval \<Rightarrow> bool" where
  "can_publish_directly self content_type lgroup =
     (if role self = ''admin'' then True
      else if role self = ''editor'' then content_type \<in> set editor_types
      else if role self = ''group_lead'' then
        (if content_type \<in> set local_types then lgroup = PStr (local_group self) else False)
      else False)"

definition can_create :: "UserProfile \<Rightarrow> string \<Rightarrow> pyval \<Rightarrow> bool" where
  "can_create self content_type lgroup =
     (if role self = ''admin'' then True
      else if role self = ''editor'' then content_type \<in> set editor_types
      else if role self = ''group_lead'' then
        (if content_type \<in> set local_types then True else False)
      else if role self = ''contributor'' then content_type \<in> set contributor_types
      else False)"

text \<open>
  \<open>can_approve(content_type=None, local_group=None)\<close>: both arguments are optional, and
  \<open>pending_list\<close> calls it with neither.
\<close>

definition can_approve :: "UserProfile \<Rightarrow> string option \<Rightarrow> pyval \<Rightarrow> bool" where
  "can_approve self content_type lgroup =
     (if role self = ''admin'' then True
      else if role self = ''editor'' then True
      else if role self = ''group_lead'' then
        (if truthy lgroup \<and> lgroup = PStr (local_group self)
         then content_type \<in> {Some ''local_event'', Some ''local_news'', None}
         else False)
      else False)"


definition can_delete :: "UserProfile \<Rightarrow> bool" where
  "can_delete self = (role self \<in> {''admin'', ''editor''})"

section \<open>chat/models.py: drafts and the audit log\<close>

record ContentDraft =
  draft_id :: nat
  conversation :: nat
  created_by :: string
  content_type :: string
  title :: pyval
  slug :: pyval
  frontmatter_json :: pydict
  body_markdown :: string
  image_path :: string
  image_data :: "string option"
  status :: string
  git_commit_sha :: string

text \<open>
  \<open>frontmatter_json\<close> is a plain \<open>JSONField\<close>: a value is stored as \<open>json.dumps\<close> writes
  it, and \<open>json.dumps\<close> raises \<open>TypeError\<close> on a date or a datetime, at any depth.
\<close>

fun json_serializable :: "pyval \<Rightarrow> bool" where
  "json_serializable (PDate y m d) = False"
| "json_serializable (PDateTime y m d hh mm ss) = False"
| "json_serializable (PList xs) = list_all json_serializable xs"
| "json_serializable (PDict kvs) = list_all (\<lambda>kv. json_serializable (snd kv)) kvs"
| "json_serializable v = True"

record ContentAuditLog =
  audit_content_type :: string
  audit_slug :: pyval
  audit_action :: string
  audit_user :: string
  audit_sha :: string
  changes_summary :: string

section \<open>chat/views.py: the pending-drafts listing\<close>

datatype 'a http_response = HttpResponseForbidden | Rendered 'a

text \<open>
  \<open>ContentDraft.objects.filter(status='pending')\<close>, then for a group lead the filter on
  the content type and on the JSON key \<open>localGroup\<close> of the stored frontmatter.
\<close>

definition pending_list :: "UserProfile \<Rightarrow> ContentDraft list \<Rightarrow> ContentDraft list http_response" where
  "pending_list profile all_drafts =
     (if \<not> can_approve profile None PNone then HttpResponseForbidden
      else
        let drafts = filter (\<lambda>d. status d = ''pending'') all_drafts;
            drafts' =
              (if role profile = ''group_lead''
               then filter (\<lambda>d. content_type d \<in> set local_types
                                \<and> map_of (frontmatter_json d) ''localGroup'' = Some (PStr (local_group profile)))
                      drafts
               else drafts)
        in Rendered drafts')"

section \<open>content_schema/schemas.py: the content types\<close>

text \<open>Decimal digits of a number, as \<open>str(n)\<close> prints them.\<close>

function string_of_nat :: "nat \<Rightarrow> string" where
  "string_of_nat n =
     (if n < 10 then [''0123456789'' ! n]
      else string_of_nat (n div 10) @ [''0123456789'' ! (n mod 10)])"
  by pat_completeness auto
termination
  by (relation "measure id") auto

definition string_of_int :: "int \<Rightarrow> string" where
  "string_of_int i = (if i < 0 then CHR ''-'' # string_of_nat (nat (- i)) else string_of_nat (nat i))"

definition pad2 :: "nat \<Rightarrow> string" where
  "pad2 n = (if n < 10 then CHR ''0'' # string_of_nat n else string_of_nat n)"

definition pad4 :: "nat \<Rightarrow> string" where
  "pad4 n = replicate (4 - length (string_of_nat n)) CHR ''0'' @ string_of_nat n"

text \<open>
  \<open>repr\<close> of a string: single quotes, unless the string has a single quote and no
  double quote; backslash, the quote, newline, carriage return and tab are escaped.
\<close>

definition repr_char :: "char \<Rightarrow> char \<Rightarrow> string" where
  "repr_char q c =
     (if c = CHR 0x5C then [CHR 0x5C, CHR 0x5C]
      else if c = q then [CHR 0x5C, q]
      else if c = CHR 0x0A then [CHR 0x5C, CHR ''n'']
      else if c = CHR 0x0D then [CHR 0x5C, CHR ''r'']
      else if c = CHR 0x09 then [CHR 0x5C, CHR ''t'']
      else [c])"

definition py_repr_str :: "string \<Rightarrow> string" where
  "py_repr_str s =
     (let q = (if CHR 0x27 \<in> set s \<and> CHR 0x22 \<notin> set s then CHR 0x22 else CHR 0x27)
      in q # concat (map (repr_char q) s) @ [q])"

fun join :: "string \<Rightarrow> string list \<Rightarrow> string" where
  "join sep [] = []"
| "join sep [x] = x"
| "join sep (x # y # ys) = x @ sep @ join sep (y # ys)"

text \<open>\<open>repr(v)\<close> and \<open>str(v)\<close>; they differ on strings, dates and datetimes only.\<close>

fun py_repr :: "pyval \<Rightarrow> string" where
  "py_repr PNone = ''None''"
| "py_repr (PBool b) = (if b then ''True'' else ''False'')"
| "py_repr (PInt i) = string_of_int i"
| "py_repr (PFloat r) = r"
| "py_repr (PStr s) = py_repr_str s"
| "py_repr (PList xs) = ''['' @ join '', '' (map py_repr xs) @ '']''"
| "py_repr (PDict kvs) =
     ''{'' @ join '', '' (map (\<lambda>kv. py_repr_str (fst kv) @ '': '' @ py_repr (snd kv)) kvs) @ ''}''"
| "py_repr (PDate y m d) =
     ''datetime.date('' @ join '', '' (map string_of_nat [y, m, d]) @ '')''"
| "py_repr (PDateTime y m d hh mm ss) =
     ''datetime.datetime(''
       @ join '', '' (map string_of_nat ([y, m, d, hh, mm] @ (if ss = 0 then [] else [ss])))
       @ '')''"

definition py_str :: "pyval \<Rightarrow> string" where
  "py_str v =
     (case v of
        PStr s \<Rightarrow> s
      | PDate y m d \<Rightarrow> pad4 y @ ''-'' @ pad2 m @ ''-'' @ pad2 d
      | PDateTime y m d hh mm ss \<Rightarrow>
          pad4 y @ ''-'' @ pad2 m @ ''-'' @ pad2 d @ '' '' @ pad2 hh @ '':'' @ pad2 mm @ '':'' @ pad2 ss
      | _ \<Rightarrow> py_repr v)"

record field_def =
  ftype :: string
  options :: "string list option"
  default :: "pyval option"

record schema =
  name :: string
  directory :: string
  filename_pattern :: string
  required_fields :: "string list"
  fields' :: "(string \<times> field_def) list"

text \<open>
  The table \<open>CONTENT_TYPES\<close>, in the order of the source. The keys \<open>description\<close>,
  \<open>optional\<close>, \<open>appears_on\<close>, \<open>route\<close> and \<open>notes\<close> are documentation that only
  the prompt builder reads; they are left out.
\<close>

definition fld :: "string \<Rightarrow> field_def" where
  "fld t = \<lparr>ftype = t, options = None, default = None\<rparr>"

definition fld_default :: "string \<Rightarrow> pyval \<Rightarrow> field_def" where
  "fld_default t d = \<lparr>ftype = t, options = None, default = Some d\<rparr>"

definition fld_enum :: "string list \<Rightarrow> field_def" where
  "fld_enum opts = \<lparr>ftype = ''enum'', options = Some opts, default = None\<rparr>"

definition fld_enum_default :: "string list \<Rightarrow> pyval \<Rightarrow> field_def" where
  "fld_enum_default opts d = \<lparr>ftype = ''enum'', options = Some opts, default = Some d\<rparr>"

definition local_groups :: "string list" where
  "local_groups = [''brighton'', ''london'', ''oxford'', ''pennines'', ''scotland'', ''solent'']"

definition article_schema :: schema where
  "article_schema =
     \<lparr>name = ''Article'', directory = ''src/content/articles/'', filename_pattern = ''{slug}.md'',
      required_fields = [''title'', ''slug'', ''category'', ''author'', ''pubDate''],
      fields' =
        [(''title'', fld ''string''),
         (''slug'', fld ''string''),
         (''category'', fld_enum [''Article'', ''Commentary'', ''Research'',
                                  ''Core Ideas'', ''Core Insights'', ''But what about...?'']),
         (''layout'', fld_enum_default [''default'', ''simplified'', ''rebuttal''] (PStr ''default'')),
         (''sector'', fld_default ''string'' (PStr ''Economics'')),
         (''author'', fld_default ''string'' (PStr ''MMTUK'')),
         (''authorTitle'', fld ''string''),
         (''pubDate'', fld ''date''),
         (''readTime'', fld_default ''number'' (PInt 5)),
         (''summary'', fld ''string''),
         (''thumbnail'', fld ''string''),
         (''mainImage'', fld ''string''),
         (''featured'', fld_default ''boolean'' (PBool False)),
         (''color'', fld ''string'')]\<rparr>"

definition briefing_schema :: schema where
  "briefing_schema =
     \<lparr>name = ''Briefing'', directory = ''src/content/briefings/'', filename_pattern = ''{slug}.md'',
      required_fields = [''title'', ''slug'', ''author'', ''pubDate''],
      fields' =
        [(''title'', fld ''string''),
         (''slug'', fld ''string''),
         (''author'', fld ''string''),
         (''authorTitle'', fld ''string''),
         (''pubDate'', fld ''date''),
         (''readTime'', fld_default ''number'' (PInt 5)),
         (''summary'', fld ''string''),
         (''thumbnail'', fld ''string''),
         (''mainImage'', fld ''string''),
         (''featured'', fld_default ''boolean'' (PBool False)),
         (''draft'', fld_default ''boolean'' (PBool False)),
         (''sourceUrl'', fld ''string''),
         (''sourceTitle'', fld ''string''),
         (''sourceAuthor'', fld ''string''),
         (''sourcePublication'', fld ''string''),
         (''sourceDate'', fld ''date'')]\<rparr>"

definition news_schema :: schema where
  "news_schema =
     \<lparr>name = ''News'', directory = ''src/content/news/'', filename_pattern = ''{slug}.md'',
      required_fields = [''title'', ''slug'', ''date'', ''category''],
      fields' =
        [(''title'', fld ''string''),
         (''slug'', fld ''string''),
         (''date'', fld ''date''),
         (''category'', fld_enum [''Announcement'', ''Event'', ''Press Release'', ''Update'']),
         (''summary'', fld ''string''),
         (''thumbnail'', fld ''string''),
         (''mainImage'', fld ''string'')]\<rparr>"

definition local_event_schema :: schema where
  "local_event_schema =
     \<lparr>name = ''Local Event'', directory = ''src/content/localEvents/'', filename_pattern = ''{slug}.md'',
      required_fields = [''title'', ''slug'', ''localGroup'', ''date'', ''tag'', ''location'', ''description''],
      fields' =
        [(''title'', fld ''string''),
         (''slug'', fld ''string''),
         (''localGroup'', fld_enum local_groups),
         (''date'', fld ''datetime''),
         (''tag'', fld ''string''),
         (''location'', fld ''string''),
         (''description'', fld ''string''),
         (''link'', fld ''string''),
         (''image'', fld ''string'')]\<rparr>"

definition local_news_schema :: schema where
  "local_news_schema =
     \<lparr>name = ''Local News'', directory = ''src/content/localNews/'', filename_pattern = ''{slug}.md'',
      required_fields = [''heading'', ''slug'', ''text'', ''localGroup'', ''date''],
      fields' =
        [(''heading'', fld ''string''),
         (''slug'', fld ''string''),
         (''text'', fld ''string''),
         (''localGroup'', fld_enum local_groups),
         (''date'', fld ''date''),
         (''link'', fld ''string''),
         (''image'', fld ''string'')]\<rparr>"

definition bio_schema :: schema where
  "bio_schema =
     \<lparr>name = ''Bio'', directory = ''src/content/bios/'', filename_pattern = ''{slug}.md'',
      required_fields = [''name'', ''slug'', ''role''],
      fields' =
        [(''name'', fld ''string''),
         (''slug'', fld ''string''),
         (''role'', fld ''string''),
         (''photo'', fld ''string''),
         (''linkedin'', fld ''string''),
         (''twitter'', fld ''string''),
         (''website'', fld ''string''),
         (''advisoryBoard'', fld_default ''boolean'' (PBool False))]\<rparr>"

definition ecosystem_schema :: schema where
  "ecosystem_schema =
     \<lparr>name = ''Ecosystem Entry'', directory = ''src/content/ecosystem/'', filename_pattern = ''{slug}.md'',
      required_fields = [''name'', ''slug''],
      fields' =
        [(''name'', fld ''string''),
         (''slug'', fld ''string''),
         (''country'', fld_default ''string'' (PStr ''UK'')),
         (''types'', fld ''string_array''),
         (''summary'', fld ''string''),
         (''logo'', fld ''string''),
         (''website'', fld ''string''),
         (''twitter'', fld ''string''),
         (''facebook'', fld ''string''),
         (''youtube'', fld ''string''),
         (''discord'', fld ''string''),
         (''status'', fld_enum_default [''Active'', ''Inactive'', ''Archived''] (PStr ''Active''))]\<rparr>"

definition CONTENT_TYPES :: "(string \<times> schema) list" where
  "CONTENT_TYPES =
     [(''article'', article_schema),
      (''briefing'', briefing_schema),
      (''news'', news_schema),
      (''local_event'', local_event_schema),
      (''local_news'', local_news_schema),
      (''bio'', bio_schema),
      (''ecosystem'', ecosystem_schema)]"

text \<open>
  \<open>d.strftime('%Y-%m-%dT%H:%M:%S.000Z')\<close> for a datetime, midnight for a date.
  \<open>strftime('%Y')\<close> prints the year as it is, without the leading zeros that \<open>str\<close>
  and \<open>isoformat\<close> give a year below 1000; month, day and time have two digits.
\<close>

definition format_date :: "pyval \<Rightarrow> string" where
  "format_date d =
     (case d of
        PDateTime y m dd hh mm ss \<Rightarrow>
          string_of_nat y @ ''-'' @ pad2 m @ ''-'' @ pad2 dd @ ''T'' @ pad2 hh @ '':'' @ pad2 mm @ '':'' @ pad2 ss
            @ ''.000Z''
      | PDate y m dd \<Rightarrow> string_of_nat y @ ''-'' @ pad2 m @ ''-'' @ pad2 dd @ ''T00:00:00.000Z''
      | PStr s \<Rightarrow> s
      | _ \<Rightarrow> py_str d)"

definition auto_layout :: "pyval \<Rightarrow> string" where
  "auto_layout category =
     (if category \<in> {PStr ''Core Ideas'', PStr ''Core Insights''} then ''simplified''
      else if category = PStr ''But what about...?'' then ''rebuttal''
      else ''default'')"

text \<open>
  \<open>validate_frontmatter\<close>: one error for each required field that is missing, \<open>None\<close>
  or empty, then one for each supplied enum field whose value is not an option.
\<close>

definition missing_errors :: "string list \<Rightarrow> pydict \<Rightarrow> string list" where
  "missing_errors required frontmatter =
     map (\<lambda>f. ''Missing required field: '' @ f)
       (filter (\<lambda>f. \<not> dict_has frontmatter f \<or> dict_get frontmatter f \<in> {PNone, PStr []}) required)"

definition enum_error :: "(string \<times> field_def) list \<Rightarrow> string \<times> pyval \<Rightarrow> string list" where
  "enum_error flds kv =
     (case map_of flds (fst kv) of
        None \<Rightarrow> []
      | Some field_def \<Rightarrow>
          (case options field_def of
             Some opts \<Rightarrow>
               (if ftype field_def = ''enum'' \<and> snd kv \<notin> set (map PStr opts)
                then [fst kv @ '': '' @ [CHR 0x22] @ py_str (snd kv) @ [CHR 0x22]
                        @ '' is not a valid option. Must be one of: ''
                        @ py_repr (PList (map PStr opts))]
                else [])
           | None \<Rightarrow> []))"

definition validate_frontmatter :: "string \<Rightarrow> pydict \<Rightarrow> bool \<times> string list" where
  "validate_frontmatter ctype frontmatter =
     (case map_of CONTENT_TYPES ctype of
        None \<Rightarrow> (False, [''Unknown content type: '' @ ctype])
      | Some sch \<Rightarrow>
          (let errors = missing_errors (required_fields sch) frontmatter
                          @ concat (map (enum_error (fields' sch)) frontmatter)
           in (errors = [], errors)))"

text \<open>
  \<open>apply_defaults\<close>: a copy of the frontmatter with the default of every field that is
  absent; for an article with a category, the layout follows the category when the
  caller's frontmatter has no layout or a false one.
\<close>

fun add_defaults :: "(string \<times> field_def) list \<Rightarrow> pydict \<Rightarrow> pydict" where
  "add_defaults [] result = result"
| "add_defaults ((field_name, field_def) # rest) result =
     add_defaults rest
       (case default field_def of
          Some d \<Rightarrow> (if \<not> dict_has result field_name then AList.update field_name d result else result)
        | None \<Rightarrow> result)"

definition apply_defaults :: "string \<Rightarrow> pydict \<Rightarrow> pydict" where
  "apply_defaults ctype frontmatter =
     (case map_of CONTENT_TYPES ctype of
        None \<Rightarrow> frontmatter
      | Some sch \<Rightarrow>
          (let result = add_defaults (fields' sch) frontmatter
           in if ctype = ''article'' \<and> dict_has result ''category''
              then (if \<not> dict_has frontmatter ''layout'' \<or> \<not> truthy (dict_get frontmatter ''layout'')
                    then AList.update ''layout'' (PStr (auto_layout (dict_get result ''category''))) result
                    else result)
              else result))"

section \<open>chat/services/content\_service.py: paths and the markdown file\<close>

datatype exn = GitCommandError | YAMLError | ValueError | AttributeError | TypeError | OtherError

text \<open>\<open>pattern.format(slug=slug)\<close>: every \<open>{slug}\<close> of the pattern becomes the slug.\<close>

fun format_slug :: "string \<Rightarrow> string \<Rightarrow> string" where
  "format_slug [] s = []"
| "format_slug (c # cs) s =
     (if take 6 (c # cs) = ''{slug}'' then s @ format_slug (drop 5 cs) s
      else c # format_slug cs s)"

definition get_file_path :: "string \<Rightarrow> pyval \<Rightarrow> exn + string" where
  "get_file_path ctype slug_v =
     (case map_of CONTENT_TYPES ctype of
        None \<Rightarrow> Inl ValueError
      | Some sch \<Rightarrow> Inr (directory sch @ format_slug (filename_pattern sch) (py_str slug_v)))"

definition get_image_path :: "string \<Rightarrow> pyval \<Rightarrow> string" where
  "get_image_path ctype slug_v =
     (if ctype = ''bio'' then ''public/images/bios/'' @ py_str slug_v @ ''.png''
      else if ctype = ''briefing'' then ''public/images/briefings/'' @ py_str slug_v @ ''-thumbnail.png''
      else ''public/images/'' @ py_str slug_v @ ''.png'')"

definition py_lower :: "string \<Rightarrow> string" where
  "py_lower s =
     map (\<lambda>c. if CHR ''A'' \<le> c \<and> c \<le> CHR ''Z'' then char_of (of_char c + (32::nat)) else c) s"

definition yaml_special :: "char list" where
  "yaml_special = '':#{}[],&*?|-<>=!%@'' @ [CHR 0x60]"

definition yaml_words :: "string list" where
  "yaml_words = [''true'', ''false'', ''yes'', ''no'', ''null'', ''on'', ''off'']"

definition escape_quotes :: "string \<Rightarrow> string" where
  "escape_quotes s = concat (map (\<lambda>c. if c = CHR 0x22 then [CHR 0x5C, CHR 0x22] else [c]) s)"

definition yaml_value :: "pyval \<Rightarrow> string" where
  "yaml_value v =
     (case v of
        PBool b \<Rightarrow> (if b then ''true'' else ''false'')
      | PInt i \<Rightarrow> py_str v
      | PFloat r \<Rightarrow> py_str v
      | PList xs \<Rightarrow> ''['' @ join '', '' (map (\<lambda>x. [CHR 0x22] @ py_str x @ [CHR 0x22]) xs) @ '']''
      | PStr s \<Rightarrow>
          (if \<exists>c \<in> set yaml_special. c \<in> set s then [CHR 0x22] @ escape_quotes s @ [CHR 0x22]
           else if py_lower s \<in> set yaml_words then [CHR 0x22] @ s @ [CHR 0x22]
           else s)
      | _ \<Rightarrow> py_str v)"

definition frontmatter_line :: "pydict \<Rightarrow> string \<times> field_def \<Rightarrow> string list" where
  "frontmatter_line frontmatter f =
     (case map_of frontmatter (fst f) of
        None \<Rightarrow> []
      | Some v \<Rightarrow>
          (if v = PNone then []
           else [fst f @ '': '' @
                 yaml_value (if ftype (snd f) \<in> {''date'', ''datetime''} then PStr (format_date v) else v)]))"

definition endswith_newline :: "string \<Rightarrow> bool" where
  "endswith_newline s = (s \<noteq> [] \<and> last s = CHR 0x0A)"

definition generate_markdown :: "string \<Rightarrow> pydict \<Rightarrow> string \<Rightarrow> string option \<times> string list" where
  "generate_markdown ctype frontmatter0 body =
     (case map_of CONTENT_TYPES ctype of
        None \<Rightarrow> (None, [''Unknown content type: '' @ ctype])
      | Some sch \<Rightarrow>
          (let frontmatter = apply_defaults ctype frontmatter0;
               (is_valid, errors) = validate_frontmatter ctype frontmatter
           in if \<not> is_valid then (None, errors)
              else
                (let lines = [''---''] @ concat (map (frontmatter_line frontmatter) (fields' sch)) @ [''---'', []];
                     lines' = (if body \<noteq> []
                               then lines @ [body] @ (if \<not> endswith_newline body then [[]] else [])
                               else lines)
                 in (Some (join [CHR 0x0A] lines'), []))))"

section \<open>The world the services act on\<close>

text \<open>
  The services read and change the clone on disk, the git history, the cache and the
  database, and they call collaborators that are not part of the core (git itself, the
  YAML parser, the image and PDF services). The state is a record that every operation
  takes and returns; an exception is the left summand of the result. What a
  collaborator answers is a parameter of the model, the environment: \<open>fails env n\<close> is
  the exception the \<open>n\<close>-th external call raises, if any.
\<close>

record commit =
  sha :: string
  message :: string
  author :: string
  changes :: "(string \<times> string option) list"

datatype event =
    LockAcquire | LockRelease
  | GitClone | GitSetUrl | GitFetch | GitCheckout | GitIterCommits
  | GitRebase | GitRebaseAbort | GitResetHard
  | GitIndexAdd string | GitIndexRemove string | GitCommit string
  | GitPush | GitPullRebase
  | WriteRepo string | WriteOutput string | DeleteRepo string
  | DraftCreate string | AuditCreate string
  | ProcessImage | GetPdfImage

type_synonym files = "(string \<times> string) list"

record content_item =
  ci_content_type :: string
  ci_slug :: pyval
  ci_title :: pyval
  ci_frontmatter :: pydict
  ci_file_path :: string
  ci_modified_date :: "nat option"

record read_result =
  rr_frontmatter :: pydict
  rr_body :: string
  rr_raw_markdown :: string
  rr_file_path :: string

record world =
  trace :: "event list"
  tick :: nat
  lock_held :: bool
  cloned :: bool
  clone_files :: files
  output_files :: files
  staged :: "(string \<times> string option) list"
  local_branch :: "commit list"
  origin_ref :: "commit list"
  upstream :: "commit list"
  rebase_in_progress :: bool
  drafts :: "ContentDraft list"
  audit_log :: "ContentAuditLog list"
  cache_list :: "string \<Rightarrow> content_item list option"
  cache_read :: "string \<Rightarrow> read_result option"

record env =
  DEBUG :: bool
  fails :: "nat \<Rightarrow> exn option"
  rebase_stops_midway :: "nat \<Rightarrow> bool"
  new_sha :: "nat \<Rightarrow> string"
  rebase_sha :: "string \<Rightarrow> string"
  files_at :: "commit list \<Rightarrow> files \<Rightarrow> files"
  yaml_safe_load :: "string \<Rightarrow> exn + pyval"
  process_image :: "string \<Rightarrow> pyval \<Rightarrow> string option"
  get_pdf_image :: "nat \<Rightarrow> pyval \<Rightarrow> string option"
  getmtime :: "string \<Rightarrow> nat"

type_synonym 'a io = "world \<Rightarrow> (exn + 'a) \<times> world"

definition io_ret :: "'a \<Rightarrow> 'a io" where
  "io_ret x w = (Inr x, w)"

definition io_raise :: "exn \<Rightarrow> 'a io" where
  "io_raise e w = (Inl e, w)"

definition io_bind :: "'a io \<Rightarrow> ('a \<Rightarrow> 'b io) \<Rightarrow> 'b io" where
  "io_bind m f w = (case m w of (Inl e, w') \<Rightarrow> (Inl e, w') | (Inr x, w') \<Rightarrow> f x w')"

text \<open>\<open>try: m except Exception: h\<close> and \<open>try: m except git.GitCommandError: h\<close>.\<close>

definition io_try :: "'a io \<Rightarrow> 'a io \<Rightarrow> 'a io" where
  "io_try m h w = (case m w of (Inl e, w') \<Rightarrow> h w' | (Inr x, w') \<Rightarrow> (Inr x, w'))"

definition io_try_git :: "'a io \<Rightarrow> 'a io \<Rightarrow> 'a io" where
  "io_try_git m h w =
     (case m w of
        (Inl e, w') \<Rightarrow> (if e = GitCommandError then h w' else (Inl e, w'))
      | (Inr x, w') \<Rightarrow> (Inr x, w'))"

text \<open>
  An external call: it is recorded, it takes the next answer of the environment, and
  it has its effect only when it does not raise.
\<close>

definition ext_call :: "env \<Rightarrow> event \<Rightarrow> (world \<Rightarrow> world) \<Rightarrow> unit io" where
  "ext_call env ev effect w =
     (let w1 = w\<lparr>trace := trace w @ [ev], tick := Suc (tick w)\<rparr>
      in case fails env (tick w) of
           Some e \<Rightarrow> (Inl e, w1)
         | None \<Rightarrow> (Inr (), effect w1))"

section \<open>chat/services/git\_service.py\<close>

text \<open>
  \<open>with _git_lock:\<close> the lock is taken, the body runs, and the lock is released on
  every way out of the body.
\<close>

definition with_git_lock :: "'a io \<Rightarrow> 'a io" where
  "with_git_lock body w =
     (case body (w\<lparr>trace := trace w @ [LockAcquire], lock_held := True\<rparr>) of
        (r, w') \<Rightarrow> (r, w'\<lparr>trace := trace w' @ [LockRelease], lock_held := False\<rparr>))"

text \<open>
  Modelled from the spec: git itself (GitPython and the git binary are not under src/).
  A branch is the list of its commits, newest first. \<open>origin/branch..branch\<close> lists the
  local commits that the remote-tracking branch does not have. A fetch moves the
  remote-tracking branch to the remote's; a hard reset moves the local branch to the
  remote-tracking branch; a rebase replays the local-only commits on the
  remote-tracking branch, and when it stops on a conflict it leaves a rebase in
  progress, which only \<open>rebase --abort\<close> ends; git refuses a rebase while one is in
  progress and refuses \<open>--abort\<close> when none is, and like every command \<open>--abort\<close>
  may fail, which leaves the rebase in progress. The remote rejects a push unless the
  local branch contains the remote's; a rejected push changes nothing, and
  \<open>Remote.push()\<close> of GitPython reports it in the flags of its result: it raises
  nothing (a push raises when the command itself fails, which is the environment's
  answer). Which files git leaves in the working tree for a history is the
  environment's \<open>files_at\<close>.
\<close>

definition ahead_of_origin :: "world \<Rightarrow> commit list" where
  "ahead_of_origin w = filter (\<lambda>c. c \<notin> set (origin_ref w)) (local_branch w)"

definition rebased :: "env \<Rightarrow> commit list \<Rightarrow> commit list" where
  "rebased env cs = map (\<lambda>c. c\<lparr>sha := rebase_sha env (sha c)\<rparr>) cs"

definition open_repo :: "unit io" where
  "open_repo w = (if cloned w then (Inr (), w) else (Inl OtherError, w))"

definition git_clone :: "env \<Rightarrow> unit io" where
  "git_clone env =
     ext_call env GitClone
       (\<lambda>w. w\<lparr>cloned := True, local_branch := upstream w, origin_ref := upstream w,
              clone_files := files_at env (upstream w) []\<rparr>)"

definition git_set_url :: "env \<Rightarrow> unit io" where
  "git_set_url env = ext_call env GitSetUrl (\<lambda>w. w)"

definition git_fetch :: "env \<Rightarrow> unit io" where
  "git_fetch env = ext_call env GitFetch (\<lambda>w. w\<lparr>origin_ref := upstream w\<rparr>)"

definition git_checkout :: "env \<Rightarrow> unit io" where
  "git_checkout env = ext_call env GitCheckout (\<lambda>w. w)"

definition iter_commits :: "env \<Rightarrow> commit list io" where
  "iter_commits env w =
     (case ext_call env GitIterCommits (\<lambda>w. w) w of
        (Inl e, w') \<Rightarrow> (Inl e, w')
      | (Inr u, w') \<Rightarrow> (Inr (ahead_of_origin w'), w'))"

definition git_rebase :: "env \<Rightarrow> unit io" where
  "git_rebase env w =
     (let w1 = w\<lparr>trace := trace w @ [GitRebase], tick := Suc (tick w)\<rparr>
      in if rebase_in_progress w then (Inl GitCommandError, w1)
         else
           (case fails env (tick w) of
              None \<Rightarrow>
                (Inr (),
                 w1\<lparr>local_branch := rebased env (ahead_of_origin w) @ origin_ref w,
                    clone_files := files_at env (rebased env (ahead_of_origin w) @ origin_ref w) (clone_files w)\<rparr>)
            | Some e \<Rightarrow>
                (Inl e,
                 if e = GitCommandError \<and> rebase_stops_midway env (tick w)
                 then w1\<lparr>rebase_in_progress := True\<rparr> else w1)))"

definition git_rebase_abort :: "env \<Rightarrow> unit io" where
  "git_rebase_abort env w =
     (let w1 = w\<lparr>trace := trace w @ [GitRebaseAbort], tick := Suc (tick w)\<rparr>
      in if rebase_in_progress w then
           (case fails env (tick w) of
              None \<Rightarrow> (Inr (), w1\<lparr>rebase_in_progress := False\<rparr>)
            | Some e \<Rightarrow> (Inl e, w1))
         else (Inl GitCommandError, w1))"

definition git_reset_hard :: "env \<Rightarrow> unit io" where
  "git_reset_hard env =
     ext_call env GitResetHard
       (\<lambda>w. w\<lparr>local_branch := origin_ref w, clone_files := files_at env (origin_ref w) (clone_files w)\<rparr>)"

definition git_push :: "env \<Rightarrow> unit io" where
  "git_push env w =
     (let w1 = w\<lparr>trace := trace w @ [GitPush], tick := Suc (tick w)\<rparr>
      in case fails env (tick w) of
           Some e \<Rightarrow> (Inl e, w1)
         | None \<Rightarrow>
             (if suffix (upstream w) (local_branch w)
              then (Inr (), w1\<lparr>upstream := local_branch w, origin_ref := local_branch w\<rparr>)
              else (Inr (), w1)))"

definition git_pull_rebase :: "env \<Rightarrow> unit io" where
  "git_pull_rebase env =
     ext_call env GitPullRebase
       (\<lambda>w. w\<lparr>origin_ref := upstream w,
              local_branch := rebased env (filter (\<lambda>c. c \<notin> set (upstream w)) (local_branch w)) @ upstream w,
              clone_files :=
                files_at env (rebased env (filter (\<lambda>c. c \<notin> set (upstream w)) (local_branch w)) @ upstream w)
                  (clone_files w)\<rparr>)"

text \<open>
  \<open>ensure_repo\<close>: clone when there is no clone; otherwise fetch, and rebase the unpushed
  commits or, when there are none, reset. It does not take the lock.
\<close>

definition ensure_repo :: "env \<Rightarrow> unit io" where
  "ensure_repo env w =
     (if \<not> cloned w then git_clone env w
      else
        io_bind (git_set_url env) (\<lambda>_.
        io_bind (git_fetch env) (\<lambda>_.
        io_bind (git_checkout env) (\<lambda>_.
        io_bind (io_try (iter_commits env) (io_ret [])) (\<lambda>ahead.
          if ahead \<noteq> [] then
            io_try_git (git_rebase env)
              (io_bind (io_try (git_rebase_abort env) (io_ret ())) (\<lambda>_. git_reset_hard env))
          else git_reset_hard env)))) w)"

definition write_file_to_repo :: "env \<Rightarrow> string \<Rightarrow> string \<Rightarrow> unit io" where
  "write_file_to_repo env relative_path content =
     ext_call env (WriteRepo relative_path)
       (\<lambda>w. w\<lparr>clone_files := AList.update relative_path content (clone_files w)\<rparr>)"

definition write_file_to_output :: "env \<Rightarrow> string \<Rightarrow> string \<Rightarrow> unit io" where
  "write_file_to_output env relative_path content =
     ext_call env (WriteOutput relative_path)
       (\<lambda>w. w\<lparr>output_files := AList.update relative_path content (output_files w)\<rparr>)"

definition read_file_from_repo :: "env \<Rightarrow> world \<Rightarrow> string \<Rightarrow> string option" where
  "read_file_from_repo env w relative_path =
     (case map_of (clone_files w) relative_path of
        None \<Rightarrow> (if DEBUG env then map_of (output_files w) relative_path else None)
      | Some text \<Rightarrow> Some text)"

text \<open>
  \<open>list_files_in_directory(dir)\<close> with the pattern \<open>*.md\<close>: the files directly in the
  directory whose name ends in \<open>.md\<close>, sorted.
\<close>

definition in_directory :: "string \<Rightarrow> string \<Rightarrow> bool" where
  "in_directory relative_dir p =
     (take (length relative_dir) p = relative_dir
      \<and> CHR ''/'' \<notin> set (drop (length relative_dir) p)
      \<and> suffix ''.md'' (drop (length relative_dir) p))"

definition list_files_in_directory :: "world \<Rightarrow> string \<Rightarrow> string list" where
  "list_files_in_directory w relative_dir =
     sort (remdups (filter (in_directory relative_dir) (map fst (clone_files w))))"

definition delete_file_from_repo :: "env \<Rightarrow> string \<Rightarrow> bool io" where
  "delete_file_from_repo env relative_path w =
     (if map_of (clone_files w) relative_path = None then (Inr False, w)
      else
        io_bind
          (ext_call env (DeleteRepo relative_path)
             (\<lambda>w. w\<lparr>clone_files := AList.delete relative_path (clone_files w)\<rparr>))
          (\<lambda>_. io_ret True) w)"

text \<open>
  \<open>commit_locally\<close>: under the lock, stage each path (an add when the file is on disk,
  otherwise a removal, whose failure is only logged), then commit what is staged.
\<close>

fun stage_files :: "env \<Rightarrow> string list \<Rightarrow> unit io" where
  "stage_files env [] = io_ret ()"
| "stage_files env (f # fs) =
     io_bind
       (\<lambda>w. case map_of (clone_files w) f of
               Some text \<Rightarrow> ext_call env (GitIndexAdd f) (\<lambda>w. w\<lparr>staged := staged w @ [(f, Some text)]\<rparr>) w
             | None \<Rightarrow>
                 io_try (ext_call env (GitIndexRemove f) (\<lambda>w. w\<lparr>staged := staged w @ [(f, None)]\<rparr>))
                   (io_ret ()) w)
       (\<lambda>_. stage_files env fs)"

definition git_commit :: "env \<Rightarrow> string \<Rightarrow> string \<Rightarrow> string io" where
  "git_commit env commit_message author_name w =
     io_bind
       (ext_call env (GitCommit commit_message)
          (\<lambda>w'. w'\<lparr>local_branch :=
                     \<lparr>sha = new_sha env (tick w), message = commit_message, author = author_name,
                      changes = staged w'\<rparr> # local_branch w',
                   staged := []\<rparr>))
       (\<lambda>_. io_ret (new_sha env (tick w))) w"

definition commit_locally :: "env \<Rightarrow> string list \<Rightarrow> string \<Rightarrow> string \<Rightarrow> string io" where
  "commit_locally env files_written commit_message author_name =
     with_git_lock
       (if DEBUG env then io_ret ''debug-no-push''
        else
          io_bind open_repo (\<lambda>_.
          io_bind (stage_files env files_written) (\<lambda>_.
          git_commit env commit_message author_name)))"

text \<open>
  \<open>push_to_remote\<close>: under the lock, count the unpushed commits; with none, return 0;
  otherwise push, and on a git error pull with rebase and push once more.
\<close>

definition push_to_remote :: "env \<Rightarrow> nat io" where
  "push_to_remote env =
     with_git_lock
       (\<lambda>w. if DEBUG env then io_ret 0 w
            else if \<not> cloned w then io_ret 0 w
            else
              io_bind open_repo (\<lambda>_.
              io_bind (io_try (io_bind (iter_commits env) (\<lambda>ahead. io_ret (length ahead))) (io_ret 0)) (\<lambda>count.
                if count = 0 then io_ret 0
                else
                  io_bind
                    (io_try_git (git_push env)
                       (io_bind (git_pull_rebase env) (\<lambda>_. git_push env)))
                    (\<lambda>_. io_ret count))) w)"

section \<open>chat/services/content\_reader\_service.py\<close>

definition cache_key :: "string \<Rightarrow> pyval list \<Rightarrow> string" where
  "cache_key nm args = join '':'' ([''content_reader'', nm] @ map py_str (filter truthy args))"

definition invalidate_cache :: "unit io" where
  "invalidate_cache w = (Inr (), w\<lparr>cache_list := (\<lambda>_. None), cache_read := (\<lambda>_. None)\<rparr>)"

definition ensure_repo_available :: "env \<Rightarrow> unit io" where
  "ensure_repo_available env = io_try (ensure_repo env) (io_ret ())"

definition get_content_dir :: "string \<Rightarrow> string option" where
  "get_content_dir ctype = map_option directory (map_of CONTENT_TYPES ctype)"

text \<open>\<open>s.find(sub, start)\<close>.\<close>

fun find_from :: "string \<Rightarrow> string \<Rightarrow> nat \<Rightarrow> nat option" where
  "find_from [] sub i = (if sub = [] then Some i else None)"
| "find_from (c # cs) sub i =
     (if take (length sub) (c # cs) = sub then Some i else find_from cs sub (Suc i))"

definition py_find :: "string \<Rightarrow> string \<Rightarrow> nat \<Rightarrow> nat option" where
  "py_find s sub start = (if start \<le> length s then find_from (drop start s) sub start else None)"

text \<open>
  \<open>s.strip()\<close> removes the whitespace characters of Unicode from both ends. A string
  of the model is the UTF-8 text of the Python string, so a whitespace character is its
  byte sequence: the ASCII ones (tab to carriage return, the four separators
  \<open>0x1C\<close> to \<open>0x1F\<close>, the space), \<open>U+0085\<close>, \<open>U+00A0\<close>, \<open>U+1680\<close>,
  \<open>U+2000\<close> to \<open>U+200A\<close>, \<open>U+2028\<close>, \<open>U+2029\<close>, \<open>U+202F\<close>, \<open>U+205F\<close> and
  \<open>U+3000\<close>.
\<close>

definition py_whitespace :: "string list" where
  "py_whitespace =
     map (\<lambda>c. [c])
       [CHR 0x09, CHR 0x0A, CHR 0x0B, CHR 0x0C, CHR 0x0D, CHR 0x1C, CHR 0x1D, CHR 0x1E, CHR 0x1F, CHR 0x20]
     @ [[CHR 0xC2, CHR 0x85], [CHR 0xC2, CHR 0xA0], [CHR 0xE1, CHR 0x9A, CHR 0x80]]
     @ map (\<lambda>c. [CHR 0xE2, CHR 0x80, c])
         [CHR 0x80, CHR 0x81, CHR 0x82, CHR 0x83, CHR 0x84, CHR 0x85, CHR 0x86, CHR 0x87, CHR 0x88,
          CHR 0x89, CHR 0x8A, CHR 0xA8, CHR 0xA9, CHR 0xAF]
     @ [[CHR 0xE2, CHR 0x81, CHR 0x9F], [CHR 0xE3, CHR 0x80, CHR 0x80]]"

function strip_left :: "string list \<Rightarrow> string \<Rightarrow> string" where
  "strip_left pats s =
     (case find (\<lambda>p. p \<noteq> [] \<and> take (length p) s = p) pats of
        None \<Rightarrow> s
      | Some p \<Rightarrow> strip_left pats (drop (length p) s))"
  by pat_completeness auto
termination
proof (relation "measure (\<lambda>(pats, s). length s)")
  show "wf (measure (\<lambda>(pats, s). length s))" by simp
next
  fix pats :: "string list" and s p :: string
  assume "find (\<lambda>p. p \<noteq> [] \<and> take (length p) s = p) pats = Some p"
  then have "p \<noteq> []" and "take (length p) s = p" by (auto simp: find_Some_iff)
  then have "s \<noteq> []" and "0 < length p" by auto
  then show "((pats, drop (length p) s), (pats, s)) \<in> measure (\<lambda>(pats, s). length s)" by simp
qed

declare strip_left.simps [simp del]

definition py_strip :: "string \<Rightarrow> string" where
  "py_strip s = rev (strip_left (map rev py_whitespace) (rev (strip_left py_whitespace s)))"

text \<open>
  \<open>_parse_frontmatter\<close>: the text between the opening \<open>---\<close> and the next occurrence
  of \<open>---\<close> anywhere after it is handed to the YAML parser; what follows is the body.
\<close>

definition parse_frontmatter :: "env \<Rightarrow> string \<Rightarrow> exn + (pydict option \<times> string)" where
  "parse_frontmatter env raw_text =
     (if raw_text = [] \<or> take 3 raw_text \<noteq> ''---'' then Inr (None, raw_text)
      else
        (case py_find raw_text ''---'' 3 of
           None \<Rightarrow> Inr (None, raw_text)
         | Some end_idx \<Rightarrow>
             (let yaml_str = py_strip (take (end_idx - 3) (drop 3 raw_text));
                  body = py_strip (drop (end_idx + 3) raw_text)
              in case yaml_safe_load env yaml_str of
                   Inl e \<Rightarrow> (if e = YAMLError then Inr (None, raw_text) else Inl e)
                 | Inr (PDict frontmatter) \<Rightarrow> Inr (Some frontmatter, body)
                 | Inr _ \<Rightarrow> Inr (None, raw_text))))"

definition title_of :: "pydict \<Rightarrow> pyval" where
  "title_of fm =
     py_or (dict_get fm ''title'')
       (py_or (dict_get fm ''heading'') (dict_get_default fm ''name'' (PStr ''Untitled'')))"

definition get_title_from_frontmatter :: "pydict option \<Rightarrow> pyval" where
  "get_title_from_frontmatter frontmatter =
     (case frontmatter of
        None \<Rightarrow> PStr ''Untitled''
      | Some fm \<Rightarrow>
          (if fm = [] then PStr ''Untitled''
           else py_or (dict_get fm ''title'')
                  (py_or (dict_get fm ''heading'')
                     (py_or (dict_get fm ''name'') (PStr ''Untitled'')))))"

text \<open>\<open>Path(file_path).stem\<close> of a path that ends in \<open>.md\<close>.\<close>

definition path_stem :: "string \<Rightarrow> string" where
  "path_stem p =
     (let nm = rev (takeWhile (\<lambda>c. c \<noteq> CHR ''/'') (rev p))
      in if suffix ''.md'' nm \<and> nm \<noteq> ''.md'' then take (length nm - 3) nm else nm)"

definition file_modified_date :: "env \<Rightarrow> world \<Rightarrow> string \<Rightarrow> nat option" where
  "file_modified_date env w relative_path =
     (if map_of (clone_files w) relative_path \<noteq> None then Some (getmtime env relative_path) else None)"

definition content_item_of :: "env \<Rightarrow> world \<Rightarrow> string \<Rightarrow> string \<Rightarrow> pydict option \<Rightarrow> content_item" where
  "content_item_of env w ctype file_path frontmatter =
     (let slug0 = (case frontmatter of
                     None \<Rightarrow> PStr []
                   | Some fm \<Rightarrow> if fm = [] then PStr [] else dict_get_default fm ''slug'' (PStr []));
          slug' = (if \<not> truthy slug0 then PStr (path_stem file_path) else slug0)
      in \<lparr>ci_content_type = ctype, ci_slug = slug',
          ci_title = get_title_from_frontmatter frontmatter,
          ci_frontmatter = (case frontmatter of None \<Rightarrow> [] | Some fm \<Rightarrow> fm),
          ci_file_path = file_path,
          ci_modified_date = file_modified_date env w file_path\<rparr>)"

fun scan_files :: "env \<Rightarrow> world \<Rightarrow> string \<Rightarrow> string list \<Rightarrow> exn + content_item list" where
  "scan_files env w ctype [] = Inr []"
| "scan_files env w ctype (file_path # rest) =
     (case read_file_from_repo env w file_path of
        None \<Rightarrow> scan_files env w ctype rest
      | Some raw \<Rightarrow>
          (case parse_frontmatter env raw of
             Inl e \<Rightarrow> Inl e
           | Inr (frontmatter, body) \<Rightarrow>
               (case scan_files env w ctype rest of
                  Inl e \<Rightarrow> Inl e
                | Inr items \<Rightarrow> Inr (content_item_of env w ctype file_path frontmatter # items))))"

fun scan_types :: "env \<Rightarrow> world \<Rightarrow> string list \<Rightarrow> exn + content_item list" where
  "scan_types env w [] = Inr []"
| "scan_types env w (ctype # rest) =
     (case get_content_dir ctype of
        None \<Rightarrow> scan_types env w rest
      | Some dir \<Rightarrow>
          (case scan_files env w ctype (list_files_in_directory w dir) of
             Inl e \<Rightarrow> Inl e
           | Inr items \<Rightarrow>
               (case scan_types env w rest of
                  Inl e \<Rightarrow> Inl e
                | Inr items' \<Rightarrow> Inr (items @ items'))))"

definition list_content :: "env \<Rightarrow> string option \<Rightarrow> content_item list io" where
  "list_content env ctype w =
     (let given = (case ctype of None \<Rightarrow> False | Some c \<Rightarrow> c \<noteq> []);
          cache_k = cache_key ''list'' [PStr (if given then the ctype else ''all'')]
      in case cache_list w cache_k of
           Some cached \<Rightarrow> (Inr cached, w)
         | None \<Rightarrow>
             io_bind (ensure_repo_available env) (\<lambda>_ w'.
               case scan_types env w' (if given then [the ctype] else map fst CONTENT_TYPES) of
                 Inl e \<Rightarrow> (Inl e, w')
               | Inr results \<Rightarrow> (Inr results, w'\<lparr>cache_list := (cache_list w')(cache_k := Some results)\<rparr>)) w)"

text \<open>
  \<open>_find_file_path_by_slug\<close>: the file named after the slug when it can be read;
  otherwise the first listed item of the type whose slug is the one asked for.
\<close>

definition find_file_path_by_slug :: "env \<Rightarrow> string \<Rightarrow> pyval \<Rightarrow> string option io" where
  "find_file_path_by_slug env ctype slug_v w =
     (case map_of CONTENT_TYPES ctype of
        None \<Rightarrow> (Inr None, w)
      | Some sch \<Rightarrow>
          (let direct_path = directory sch @ format_slug (filename_pattern sch) (py_str slug_v)
           in if read_file_from_repo env w direct_path \<noteq> None then (Inr (Some direct_path), w)
              else
                io_bind (list_content env (Some ctype)) (\<lambda>all_items.
                  io_ret (map_option ci_file_path (find (\<lambda>item. ci_slug item = slug_v) all_items))) w))"

definition check_slug_exists :: "env \<Rightarrow> string \<Rightarrow> pyval \<Rightarrow> bool io" where
  "check_slug_exists env ctype slug_v =
     io_bind (find_file_path_by_slug env ctype slug_v) (\<lambda>r. io_ret (r \<noteq> None))"


section \<open>chat/views.py: the create and edit handlers\<close>

text \<open>
  The structured intent, as \<open>extract_action_block\<close> hands it over: \<open>a_body\<close> is \<open>None\<close>
  when the block has no \<open>body\<close> key. The user carries what the handlers read of it.
\<close>

record action_data =
  a_content_type :: string
  a_slug :: pyval
  a_frontmatter :: pydict
  a_body :: "string option"
  a_images :: "pydict list"

record user =
  u_username :: string
  u_full_name :: string

datatype action_result =
    ResError string
  | ResContentCreated pyval string
  | ResContentEdited pyval string
  | ResDraftPending nat

definition get_role_display :: "UserProfile \<Rightarrow> string" where
  "get_role_display profile =
     (case map_of [(''admin'', ''Admin''), (''editor'', ''Editor''),
                   (''group_lead'', ''Group Lead''), (''contributor'', ''Contributor'')] (role profile) of
        Some label \<Rightarrow> label
      | None \<Rightarrow> role profile)"

definition em_dash :: string where
  "em_dash = [CHR 0xE2, CHR 0x80, CHR 0x94]"

definition author_name_of :: "user \<Rightarrow> string" where
  "author_name_of u = (if u_full_name u \<noteq> [] then u_full_name u else u_username u)"

text \<open>
  \<open>ContentDraft.objects.create(...)\<close>: a frontmatter that \<open>json.dumps\<close> refuses raises
  \<open>TypeError\<close> before the database is reached; otherwise the row is stored under a
  fresh id (the model numbers the rows; the code draws a UUID). \<open>_log_audit\<close> swallows
  a failure of its insertion.
\<close>

definition draft_create :: "env \<Rightarrow> ContentDraft \<Rightarrow> ContentDraft io" where
  "draft_create env d w =
     (if \<not> json_serializable (PDict (frontmatter_json d)) then (Inl TypeError, w)
      else
        io_bind
          (ext_call env (DraftCreate (status d))
             (\<lambda>w'. w'\<lparr>drafts := drafts w' @ [d\<lparr>draft_id := length (drafts w')\<rparr>]\<rparr>))
          (\<lambda>_. io_ret (d\<lparr>draft_id := length (drafts w)\<rparr>)) w)"

definition log_audit :: "env \<Rightarrow> string \<Rightarrow> pyval \<Rightarrow> string \<Rightarrow> user \<Rightarrow> string \<Rightarrow> unit io" where
  "log_audit env ctype slug_v action u sha_v =
     io_try
       (ext_call env (AuditCreate action)
          (\<lambda>w. w\<lparr>audit_log := audit_log w @
                   [\<lparr>audit_content_type = ctype, audit_slug = slug_v, audit_action = action,
                     audit_user = u_username u, audit_sha = sha_v, changes_summary = []\<rparr>]\<rparr>))
       (io_ret ())"

text \<open>
  The image of a create intent: the first entry of \<open>images\<close>, taken from an uploaded PDF
  or from a URL; \<open>save_as\<close>, when given, names the path under \<open>public/\<close>.
\<close>

definition image_target :: "pydict \<Rightarrow> string \<Rightarrow> pyval \<Rightarrow> exn + string" where
  "image_target img_info ctype slug_v =
     (let save_as = dict_get_default img_info ''save_as'' (PStr [])
      in if truthy save_as
         then (case save_as of
                 PStr p \<Rightarrow> Inr (''public/'' @ dropWhile (\<lambda>c. c = CHR ''/'') p)
               | _ \<Rightarrow> Inl AttributeError)
         else Inr (get_image_path ctype slug_v))"

definition image_result :: "string option \<Rightarrow> pydict \<Rightarrow> string \<Rightarrow> pyval \<Rightarrow> (string option \<times> string option) io" where
  "image_result got img_info ctype slug_v =
     (case got of
        None \<Rightarrow> io_ret (None, None)
      | Some bytes \<Rightarrow>
          (if bytes = [] then io_ret (None, None)
           else (case image_target img_info ctype slug_v of
                   Inl e \<Rightarrow> io_raise e
                 | Inr p \<Rightarrow> io_ret (Some bytes, Some p))))"

definition resolve_image :: "env \<Rightarrow> nat \<Rightarrow> string \<Rightarrow> pyval \<Rightarrow> pydict list \<Rightarrow> (string option \<times> string option) io" where
  "resolve_image env conv ctype slug_v images =
     (case images of
        [] \<Rightarrow> io_ret (None, None)
      | img_info # _ \<Rightarrow>
          (if dict_get img_info ''source'' = PStr ''pdf''
           then io_bind (ext_call env GetPdfImage (\<lambda>w. w)) (\<lambda>_.
                  image_result (get_pdf_image env conv (dict_get_default img_info ''index'' (PInt 0)))
                    img_info ctype slug_v)
           else (let img_url = dict_get_default img_info ''url'' (PStr [])
                 in if truthy img_url
                    then image_result (process_image env (py_str img_url) slug_v) img_info ctype slug_v
                    else io_ret (None, None))))"


text \<open>
  The files of a direct publish: in DEBUG mode they go to the output directory and no
  commit is made; otherwise the clone is refreshed, the files are written to it and
  committed locally. The result is the string stored as the commit SHA.
\<close>

definition with_image :: "string option \<Rightarrow> string option \<Rightarrow> bool" where
  "with_image image_bytes image_repo_path =
     (case (image_bytes, image_repo_path) of
        (Some b, Some p) \<Rightarrow> b \<noteq> [] \<and> p \<noteq> []
      | _ \<Rightarrow> False)"

definition write_and_commit ::
  "env \<Rightarrow> string \<Rightarrow> string \<Rightarrow> string option \<Rightarrow> string option \<Rightarrow> string \<Rightarrow> user \<Rightarrow> string io" where
  "write_and_commit env file_path markdown image_bytes image_repo_path commit_msg u =
     (if DEBUG env then
        io_bind (write_file_to_output env file_path markdown) (\<lambda>_.
        io_bind (if with_image image_bytes image_repo_path
                 then write_file_to_output env (the image_repo_path) (the image_bytes)
                 else io_ret ()) (\<lambda>_.
        io_ret ''debug-mode''))
      else
        io_bind (ensure_repo env) (\<lambda>_.
        io_bind (write_file_to_repo env file_path markdown) (\<lambda>_.
        io_bind (if with_image image_bytes image_repo_path
                 then write_file_to_repo env (the image_repo_path) (the image_bytes)
                 else io_ret ()) (\<lambda>_.
        commit_locally env
          ([file_path] @ (if with_image image_bytes image_repo_path then [the image_repo_path] else []))
          commit_msg (author_name_of u)))))"

definition published_draft :: "nat \<Rightarrow> user \<Rightarrow> string \<Rightarrow> pyval \<Rightarrow> pyval \<Rightarrow> pydict \<Rightarrow> string \<Rightarrow> string \<Rightarrow> ContentDraft" where
  "published_draft conv u ctype ttl slug_v fm body sha_v =
     \<lparr>draft_id = 0, conversation = conv, created_by = u_username u, content_type = ctype,
      title = ttl, slug = slug_v, frontmatter_json = fm, body_markdown = body,
      image_path = [], image_data = None, status = ''published'', git_commit_sha = sha_v\<rparr>"

definition pending_draft ::
  "nat \<Rightarrow> user \<Rightarrow> string \<Rightarrow> pyval \<Rightarrow> pyval \<Rightarrow> pydict \<Rightarrow> string \<Rightarrow> string option \<Rightarrow> string option \<Rightarrow> ContentDraft" where
  "pending_draft conv u ctype ttl slug_v fm body image_bytes image_repo_path =
     \<lparr>draft_id = 0, conversation = conv, created_by = u_username u, content_type = ctype,
      title = ttl, slug = slug_v, frontmatter_json = fm, body_markdown = body,
      image_path = (case image_repo_path of None \<Rightarrow> [] | Some p \<Rightarrow> p), image_data = image_bytes,
      status = ''pending'', git_commit_sha = []\<rparr>"

text \<open>The body of the \<open>try\<close> of a direct publish.\<close>

definition publish_attempt ::
  "env \<Rightarrow> nat \<Rightarrow> user \<Rightarrow> string \<Rightarrow> pyval \<Rightarrow> pyval \<Rightarrow> pydict \<Rightarrow> string \<Rightarrow> string \<Rightarrow> string
     \<Rightarrow> string option \<Rightarrow> string option \<Rightarrow> (string \<times> action_result) io" where
  "publish_attempt env conv u ctype ttl slug_v fm body file_path markdown image_bytes image_repo_path =
     io_bind
       (write_and_commit env file_path markdown image_bytes image_repo_path
          (''Add '' @ ctype @ '': '' @ py_str ttl @ '' '' @ em_dash @ '' via MMTUK CMS ('' @ u_username u @ '')'') u)
       (\<lambda>sha_v.
     io_bind (draft_create env (published_draft conv u ctype ttl slug_v fm body sha_v)) (\<lambda>_.
     io_bind (log_audit env ctype slug_v ''create'' u sha_v) (\<lambda>_.
     io_bind invalidate_cache (\<lambda>_.
     io_ret (''Content published successfully! **'' @ py_str ttl
               @ ''** has been committed and will be live shortly after deployment.'',
             ResContentCreated ttl ctype)))))"

definition save_pending ::
  "env \<Rightarrow> ContentDraft \<Rightarrow> (nat \<Rightarrow> string) \<Rightarrow> (string \<times> action_result) io" where
  "save_pending env d reply =
     io_bind (draft_create env d) (\<lambda>draft. io_ret (reply (draft_id draft), ResDraftPending (draft_id draft)))"

definition lift_exn :: "exn + 'a \<Rightarrow> 'a io" where
  "lift_exn r = (case r of Inl e \<Rightarrow> io_raise e | Inr x \<Rightarrow> io_ret x)"

definition handle_content_action ::
  "env \<Rightarrow> action_data \<Rightarrow> UserProfile \<Rightarrow> nat \<Rightarrow> user \<Rightarrow> (string \<times> action_result) io" where
  "handle_content_action env ad profile conv u =
     (let ctype = a_content_type ad;
          frontmatter = a_frontmatter ad;
          body = (case a_body ad of None \<Rightarrow> [] | Some b \<Rightarrow> b);
          images = a_images ad;
          slug_v = dict_get_default frontmatter ''slug'' (PStr []);
          ttl = title_of frontmatter
      in
      io_bind (check_slug_exists env ctype slug_v) (\<lambda>dup.
        if dup then
          io_ret (''A '' @ ctype @ '' with the slug '' @ [CHR 0x22] @ py_str slug_v @ [CHR 0x22]
                    @ '' already exists. Please choose a different slug or ask to edit the existing content instead.'',
                  ResError (''Duplicate slug: '' @ py_str slug_v))
        else
          (let lgroup = dict_get_default frontmatter ''localGroup'' (PStr [])
           in if \<not> can_create profile ctype lgroup then
                io_ret (''Sorry, your role ('' @ get_role_display profile
                          @ '') doesn'' @ [CHR 0x27] @ ''t have permission to create '' @ ctype @ '' content.'',
                        ResError ''Permission denied'')
              else
                (case generate_markdown ctype frontmatter body of
                   (Some markdown, []) \<Rightarrow>
                     io_bind (resolve_image env conv ctype slug_v images) (\<lambda>(image_bytes, image_repo_path).
                     io_bind (lift_exn (get_file_path ctype slug_v)) (\<lambda>file_path.
                       if can_publish_directly profile ctype lgroup then
                         io_try
                           (publish_attempt env conv u ctype ttl slug_v frontmatter body file_path markdown
                              image_bytes image_repo_path)
                           (save_pending env
                              (pending_draft conv u ctype ttl slug_v frontmatter body image_bytes image_repo_path)
                              (\<lambda>i. ''There was an error publishing the content, but I'' @ [CHR 0x27]
                                      @ ''ve saved it as a draft (#'' @ string_of_nat i
                                      @ ''). An admin can review and publish it from the Pending dashboard.''))
                       else
                         save_pending env
                           (pending_draft conv u ctype ttl slug_v frontmatter body image_bytes image_repo_path)
                           (\<lambda>i. ''Your '' @ ctype @ '' '' @ [CHR 0x22] @ py_str ttl @ [CHR 0x22]
                                   @ '' has been saved as a draft and is awaiting approval from an editor or admin.'')))
                 | (_, errors) \<Rightarrow>
                     (let error_msg = ''There were validation errors:'' @ [CHR 0x0A]
                                        @ join [CHR 0x0A] (map (\<lambda>e. ''- '' @ e) errors)
                      in io_ret (error_msg, ResError error_msg))))))"

text \<open>
  The edit handler: the supplied frontmatter is merged into the one read from the file,
  and the body read from the file is kept when the intent has none.
\<close>

definition merge_frontmatter :: "pydict \<Rightarrow> pydict \<Rightarrow> pydict" where
  "merge_frontmatter existing_fm new_frontmatter = dict_update existing_fm new_frontmatter"




section \<open>Vocabulary of the properties\<close>

text \<open>
  The events of the freshness check (\<open>ensure_repo\<close>), and the events that write a file,
  stage it, commit or push. \<open>same_records\<close> says that a run left the database rows, the
  output directory, the git index and the lock as they were.
\<close>

definition sync_event :: "event \<Rightarrow> bool" where
  "sync_event e =
     (e \<in> {GitClone, GitSetUrl, GitFetch, GitCheckout, GitIterCommits, GitRebase, GitRebaseAbort, GitResetHard})"



definition same_records :: "world \<Rightarrow> world \<Rightarrow> bool" where
  "same_records w w' =
     (drafts w' = drafts w \<and> audit_log w' = audit_log w \<and> output_files w' = output_files w
      \<and> staged w' = staged w \<and> lock_held w' = lock_held w)"

definition quiet :: "'a io \<Rightarrow> bool" where
  "quiet m =
     (\<forall>w. same_records w (snd (m w))
          \<and> (\<exists>evs. trace (snd (m w)) = trace w @ evs \<and> list_all sync_event evs))"

text \<open>No external call raises from the \<open>n\<close>-th on.\<close>

definition ok_from :: "env \<Rightarrow> nat \<Rightarrow> bool" where
  "ok_from env n = (\<forall>m\<ge>n. fails env m = None)"

text \<open>What a handler hands back to its caller, without the reply text.\<close>

definition action_result_of :: "(exn + string \<times> action_result) \<times> world \<Rightarrow> exn + action_result" where
  "action_result_of rw = map_sum id snd (fst rw)"

text \<open>What the create handler reads of an intent, under the names the handler gives it.\<close>

definition intent_slug :: "action_data \<Rightarrow> pyval" where
  "intent_slug ad = dict_get_default (a_frontmatter ad) ''slug'' (PStr [])"

definition intent_group :: "action_data \<Rightarrow> pyval" where
  "intent_group ad = dict_get_default (a_frontmatter ad) ''localGroup'' (PStr [])"

definition intent_body :: "action_data \<Rightarrow> string" where
  "intent_body ad = (case a_body ad of None \<Rightarrow> [] | Some b \<Rightarrow> b)"

definition intent_file_path :: "action_data \<Rightarrow> string" where
  "intent_file_path ad = projr (get_file_path (a_content_type ad) (intent_slug ad))"

definition intent_pending_draft :: "nat \<Rightarrow> user \<Rightarrow> action_data \<Rightarrow> string option \<Rightarrow> string option \<Rightarrow> ContentDraft" where
  "intent_pending_draft conv u ad image_bytes image_repo_path =
     pending_draft conv u (a_content_type ad) (title_of (a_frontmatter ad)) (intent_slug ad)
       (a_frontmatter ad) (intent_body ad) image_bytes image_repo_path"


definition intent_publish_attempt ::
  "env \<Rightarrow> nat \<Rightarrow> user \<Rightarrow> action_data \<Rightarrow> string \<Rightarrow> string option \<Rightarrow> string option
     \<Rightarrow> (string \<times> action_result) io" where
  "intent_publish_attempt env conv u ad markdown image_bytes image_repo_path =
     publish_attempt env conv u (a_content_type ad) (title_of (a_frontmatter ad)) (intent_slug ad)
       (a_frontmatter ad) (intent_body ad) (intent_file_path ad) markdown image_bytes image_repo_path"

text \<open>
  An intent passes the checks of the create handler that come before the publish
  decision: the slug is free, the actor may create the type, the frontmatter validates,
  and the image, if any, is resolved. \<open>w1\<close> is the world after the slug check, \<open>w2\<close>
  the world in which the publish decision is taken.
\<close>

definition passes_checks ::
  "env \<Rightarrow> action_data \<Rightarrow> UserProfile \<Rightarrow> nat \<Rightarrow> world \<Rightarrow> world \<Rightarrow> string \<Rightarrow> string option \<Rightarrow> string option
     \<Rightarrow> world \<Rightarrow> bool" where
  "passes_checks env ad profile conv w w1 markdown image_bytes image_repo_path w2 =
     (check_slug_exists env (a_content_type ad) (intent_slug ad) w = (Inr False, w1)
      \<and> can_create profile (a_content_type ad) (intent_group ad)
      \<and> generate_markdown (a_content_type ad) (a_frontmatter ad) (intent_body ad) = (Some markdown, [])
      \<and> resolve_image env conv (a_content_type ad) (intent_slug ad) (a_images ad) w1
          = (Inr (image_bytes, image_repo_path), w2))"

text \<open>
  What the edit handler makes of an intent and of the record it has read: the merged
  frontmatter, the body, the path of the file, the draft it records. An intent passes
  the checks of the edit handler when type and slug are given, the actor may edit, the
  record is found, the merged frontmatter validates and the image, if any, is resolved.
\<close>

definition edit_merged :: "read_result \<Rightarrow> action_data \<Rightarrow> pydict" where
  "edit_merged ex ad = merge_frontmatter (rr_frontmatter ex) (a_frontmatter ad)"






text \<open>
  The events that read or change the clone or its git history, and the runs in which
  every one of them lies between taking the lock and releasing it. The flag says
  whether the lock is held where the run starts.
\<close>

fun touches_clone :: "event \<Rightarrow> bool" where
  "touches_clone LockAcquire = False"
| "touches_clone LockRelease = False"
| "touches_clone (WriteOutput p) = False"
| "touches_clone (DraftCreate s) = False"
| "touches_clone (AuditCreate a) = False"
| "touches_clone ProcessImage = False"
| "touches_clone GetPdfImage = False"
| "touches_clone e = True"

fun under_lock :: "bool \<Rightarrow> event list \<Rightarrow> bool" where
  "under_lock held [] = True"
| "under_lock held (LockAcquire # es) = under_lock True es"
| "under_lock held (LockRelease # es) = under_lock False es"
| "under_lock True (e # es) = under_lock True es"
| "under_lock False (e # es) = (\<not> touches_clone e \<and> under_lock False es)"

text \<open>
  The round trip of the file format: the file generated from a frontmatter and a body
  parses back to a frontmatter that agrees with the defaults-applied one on every field
  of the schema whose value is not \<open>None\<close> (dates in their serialized form), and to the
  stripped body.
\<close>

definition serialized :: "field_def \<Rightarrow> pyval \<Rightarrow> pyval" where
  "serialized fd v = (if ftype fd \<in> {''date'', ''datetime''} then PStr (format_date v) else v)"

definition field_agrees :: "pydict \<Rightarrow> pydict \<Rightarrow> string \<times> field_def \<Rightarrow> bool" where
  "field_agrees expected parsed f =
     (case map_of expected (fst f) of
        None \<Rightarrow> True
      | Some v \<Rightarrow>
          (if v = PNone then True
           else (case map_of parsed (fst f) of
                   None \<Rightarrow> False
                 | Some v' \<Rightarrow> serialized (snd f) v' = serialized (snd f) v)))"

definition roundtrip_holds :: "env \<Rightarrow> string \<Rightarrow> pydict \<Rightarrow> string \<Rightarrow> bool" where
  "roundtrip_holds env ctype fm body =
     (case generate_markdown ctype fm body of
        (Some md, []) \<Rightarrow>
          (case parse_frontmatter env md of
             Inr (Some parsed, body') \<Rightarrow>
               body' = py_strip body
               \<and> list_all (field_agrees (apply_defaults ctype fm) parsed)
                    (case map_of CONTENT_TYPES ctype of None \<Rightarrow> [] | Some sch \<Rightarrow> fields' sch)
           | _ \<Rightarrow> False)
      | _ \<Rightarrow> True)"

section \<open>Example data\<close>

definition oxford_lead :: UserProfile where
  "oxford_lead = \<lparr>username = ''lead'', role = ''group_lead'', local_group = ''oxford''\<rparr>"

definition oxford_event_fm :: pydict where
  "oxford_event_fm =
     [(''title'', PStr ''Reading group''), (''slug'', PStr ''reading-group''),
      (''localGroup'', PStr ''oxford''), (''date'', PStr ''2025-03-01T19:00:00.000Z''),
      (''tag'', PStr ''Meetup''), (''location'', PStr ''Town Hall''),
      (''description'', PStr ''Monthly reading group'')]"

definition oxford_pending_draft :: ContentDraft where
  "oxford_pending_draft =
     \<lparr>draft_id = 0, conversation = 0, created_by = ''carol'', content_type = ''local_event'',
      title = PStr ''Reading group'', slug = PStr ''reading-group'',
      frontmatter_json = oxford_event_fm, body_markdown = ''Join us.'',
      image_path = [], image_data = None, status = ''pending'', git_commit_sha = []\<rparr>"

definition env0 :: env where
  "env0 = \<lparr>DEBUG = False, fails = (\<lambda>n. None), rebase_stops_midway = (\<lambda>n. True),
            new_sha = (\<lambda>n. ''sha-'' @ string_of_nat n), rebase_sha = (\<lambda>s. s @ ''-rebased''),
            files_at = (\<lambda>h f. f), yaml_safe_load = (\<lambda>s. Inl YAMLError),
            process_image = (\<lambda>url s. None), get_pdf_image = (\<lambda>c i. None), getmtime = (\<lambda>p. 0)\<rparr>"


definition env_fetch_down :: env where
  "env_fetch_down = env0\<lparr>fails := (\<lambda>n. if n = 6 then Some GitCommandError else None)\<rparr>"

definition env_conflict :: env where
  "env_conflict = env0\<lparr>fails := (\<lambda>n. if n = 4 then Some GitCommandError else None)\<rparr>"

definition env_listing_fails :: env where
  "env_listing_fails = env0\<lparr>fails := (\<lambda>n. if n = 3 then Some OtherError else None)\<rparr>"

definition env_abort_fails :: env where
  "env_abort_fails = env0\<lparr>fails := (\<lambda>n. if n = 4 \<or> n = 5 then Some GitCommandError else None)\<rparr>"

definition env_push_fails :: env where
  "env_push_fails = env0\<lparr>fails := (\<lambda>n. if n = 1 then Some GitCommandError else None)\<rparr>"

definition env_count_fails :: env where
  "env_count_fails = env0\<lparr>fails := (\<lambda>n. if n = 0 then Some OtherError else None)\<rparr>"

definition w0 :: world where
  "w0 = \<lparr>trace = [], tick = 0, lock_held = False, cloned = True, clone_files = [], output_files = [],
         staged = [], local_branch = [], origin_ref = [], upstream = [], rebase_in_progress = False,
         drafts = [], audit_log = [], cache_list = (\<lambda>k. None), cache_read = (\<lambda>k. None)\<rparr>"

definition article_fm :: pydict where
  "article_fm =
     [(''title'', PStr ''Hello''), (''slug'', PStr ''hello''), (''category'', PStr ''Article''),
      (''pubDate'', PStr ''2024-01-15'')]"

definition article_intent :: action_data where
  "article_intent =
     \<lparr>a_content_type = ''article'', a_slug = PNone, a_frontmatter = article_fm,
      a_body = Some ''Body text'', a_images = []\<rparr>"

definition editor_profile :: UserProfile where
  "editor_profile = \<lparr>username = ''erin'', role = ''editor'', local_group = []\<rparr>"


definition erin :: user where
  "erin = \<lparr>u_username = ''erin'', u_full_name = ''Erin Editor''\<rparr>"


definition article_md :: string where
  "article_md = the (fst (generate_markdown ''article'' article_fm ''Body text''))"

text \<open>The world after the slug check of the article intent in \<open>w0\<close>.\<close>

definition w0_checked :: "env \<Rightarrow> world" where
  "w0_checked env = snd (check_slug_exists env ''article'' (PStr ''hello'') w0)"

definition env_db_down :: env where
  "env_db_down = env0\<lparr>fails := (\<lambda>n. if 13 \<le> n then Some OtherError else None)\<rparr>"






definition w_dup :: world where
  "w_dup = w0\<lparr>clone_files := [(''src/content/articles/hello.md'', article_md)]\<rparr>"

definition c_base :: commit where
  "c_base = \<lparr>sha = ''a1'', message = ''Initial import'', author = ''MMTUK'', changes = []\<rparr>"

definition c_local :: commit where
  "c_local = \<lparr>sha = ''b2'', message = ''Add news: Launch'', author = ''Erin Editor'',
              changes = [(''src/content/news/launch.md'', Some ''---'')]\<rparr>"

definition c_remote :: commit where
  "c_remote = \<lparr>sha = ''c3'', message = ''Fix typo'', author = ''Site Maintainer'', changes = []\<rparr>"

definition w_ahead :: world where
  "w_ahead = w0\<lparr>local_branch := [c_local, c_base], origin_ref := [c_base], upstream := [c_remote, c_base]\<rparr>"

definition w_behind :: world where
  "w_behind = w0\<lparr>local_branch := [c_base], origin_ref := [c_base], upstream := [c_remote, c_base]\<rparr>"

definition w_unpushed :: world where
  "w_unpushed = w0\<lparr>local_branch := [c_local, c_base], origin_ref := [c_base], upstream := [c_base]\<rparr>"

text \<open>
  An event in a file as the handlers write it (slug and date in quotes, which YAML reads
  as strings), and an edit of its description.
\<close>

definition disk_event_fm :: pydict where
  "disk_event_fm =
     [(''title'', PStr ''Reading group''), (''slug'', PStr ''reading-group''),
      (''localGroup'', PStr ''oxford''), (''date'', PStr ''2025-03-01T19:00:00.000Z''),
      (''tag'', PStr ''Meetup''), (''location'', PStr ''Town Hall''),
      (''description'', PStr ''Monthly reading group'')]"

definition event_yaml :: "string \<Rightarrow> string" where
  "event_yaml date_text =
     join [CHR 0x0A]
       [''title: Reading group'', ''slug: '' @ [CHR 0x22] @ ''reading-group'' @ [CHR 0x22],
        ''localGroup: oxford'', ''date: '' @ date_text, ''tag: Meetup'', ''location: Town Hall'',
        ''description: Monthly reading group'']"

definition disk_event_yaml :: string where
  "disk_event_yaml = event_yaml ([CHR 0x22] @ ''2025-03-01T19:00:00.000Z'' @ [CHR 0x22])"

definition file_text :: "string \<Rightarrow> string \<Rightarrow> string" where
  "file_text yaml body = ''---'' @ [CHR 0x0A] @ yaml @ [CHR 0x0A] @ ''---'' @ [CHR 0x0A, CHR 0x0A] @ body @ [CHR 0x0A]"

text \<open>The same event in a file written by hand, with a key that the schema does not have.\<close>

definition hand_event_fm :: pydict where
  "hand_event_fm = disk_event_fm @ [(''organiser'', PStr ''Alice'')]"

definition hand_event_yaml :: string where
  "hand_event_yaml = disk_event_yaml @ [CHR 0x0A] @ ''organiser: Alice''"




definition event_path :: string where
  "event_path = ''src/content/localEvents/reading-group.md''"





definition ex_hand_event :: read_result where
  "ex_hand_event = \<lparr>rr_frontmatter = hand_event_fm, rr_body = ''Join us.'',
               rr_raw_markdown = file_text hand_event_yaml ''Join us.'', rr_file_path = event_path\<rparr>"


definition edit_intent :: action_data where
  "edit_intent =
     \<lparr>a_content_type = ''local_event'', a_slug = PStr ''reading-group'',
      a_frontmatter = [(''description'', PStr ''Weekly reading group'')],
      a_body = None, a_images = []\<rparr>"





definition hello_path :: string where
  "hello_path = ''src/content/articles/hello.md''"

text \<open>An article whose title has three dashes in it, and the plain article as YAML reads it.\<close>

definition dashes_fm :: pydict where
  "dashes_fm =
     [(''title'', PStr ''Money --- a primer''), (''slug'', PStr ''money-primer''),
      (''category'', PStr ''Article''), (''pubDate'', PStr ''2024-01-15'')]"

definition dashes_md :: string where
  "dashes_md = the (fst (generate_markdown ''article'' dashes_fm ''Body text''))"

definition article_yaml :: string where
  "article_yaml =
     join [CHR 0x0A]
       [''title: Hello'', ''slug: hello'', ''category: Article'', ''layout: default'',
        ''sector: Economics'', ''author: MMTUK'',
        ''pubDate: '' @ [CHR 0x22] @ ''2024-01-15'' @ [CHR 0x22], ''readTime: 5'', ''featured: false'']"

definition article_parsed :: pydict where
  "article_parsed =
     [(''title'', PStr ''Hello''), (''slug'', PStr ''hello''), (''category'', PStr ''Article''),
      (''layout'', PStr ''default''), (''sector'', PStr ''Economics''), (''author'', PStr ''MMTUK''),
      (''pubDate'', PStr ''2024-01-15''), (''readTime'', PInt 5), (''featured'', PBool False)]"

definition env_article_yaml :: env where
  "env_article_yaml =
     env0\<lparr>yaml_safe_load := (\<lambda>s. if s = article_yaml then Inr (PDict article_parsed) else Inl YAMLError)\<rparr>"

chapter \<open>Properties\<close>

section \<open>Runs that only refresh the clone\<close>

lemma quietI:
  assumes "\<And>w r w'. m w = (r, w') \<Longrightarrow> same_records w w' \<and> (\<exists>evs. trace w' = trace w @ evs \<and> list_all sync_event evs)"
  shows "quiet m"
  unfolding quiet_def using assms by (metis prod.collapse)

lemma quietD:
  assumes "quiet m" "m w = (r, w')"
  shows "same_records w w'" "\<exists>evs. trace w' = trace w @ evs \<and> list_all sync_event evs"
  using assms unfolding quiet_def by (metis snd_conv)+

lemma same_records_refl: "same_records w w" by (simp add: same_records_def)
lemma same_records_trans: "same_records w w1 \<Longrightarrow> same_records w1 w2 \<Longrightarrow> same_records w w2"
  by (simp add: same_records_def)

lemma quiet_ret: "quiet (io_ret x)"
  by (rule quietI) (auto simp: io_ret_def same_records_def)

lemma quiet_raise: "quiet (io_raise x)"
  by (rule quietI) (auto simp: io_raise_def same_records_def)

lemma quiet_bind:
  assumes "quiet m" "\<And>x. quiet (f x)"
  shows "quiet (io_bind m f)"
proof (rule quietI)
  fix w r w' assume h: "io_bind m f w = (r, w')"
  obtain r1 w1 where m: "m w = (r1, w1)" by (cases "m w")
  from quietD[OF assms(1) m] obtain evs1 where
    s1: "same_records w w1" and t1: "trace w1 = trace w @ evs1" "list_all sync_event evs1" by blast
  show "same_records w w' \<and> (\<exists>evs. trace w' = trace w @ evs \<and> list_all sync_event evs)"
  proof (cases r1)
    case (Inl e)
    with h m have "w' = w1" by (simp add: io_bind_def)
    with s1 t1 show ?thesis by blast
  next
    case (Inr x)
    with h m have fx: "f x w1 = (r, w')" by (simp add: io_bind_def)
    from quietD[OF assms(2) fx] obtain evs2 where
      s2: "same_records w1 w'" and t2: "trace w' = trace w1 @ evs2" "list_all sync_event evs2" by blast
    from t1 t2 have "trace w' = trace w @ (evs1 @ evs2)" "list_all sync_event (evs1 @ evs2)" by simp_all
    with same_records_trans[OF s1 s2] show ?thesis by blast
  qed
qed

lemma quiet_try:
  assumes "quiet m" "quiet h"
  shows "quiet (io_try m h)"
proof (rule quietI)
  fix w r w' assume h: "io_try m h w = (r, w')"
  obtain r1 w1 where m: "m w = (r1, w1)" by (cases "m w")
  from quietD[OF assms(1) m] obtain evs1 where
    s1: "same_records w w1" and t1: "trace w1 = trace w @ evs1" "list_all sync_event evs1" by blast
  show "same_records w w' \<and> (\<exists>evs. trace w' = trace w @ evs \<and> list_all sync_event evs)"
  proof (cases r1)
    case (Inr x)
    with h m have "w' = w1" by (simp add: io_try_def)
    with s1 t1 show ?thesis by blast
  next
    case (Inl e)
    with h m have fx: "h w1 = (r, w')" by (simp add: io_try_def)
    from quietD[OF assms(2) fx] obtain evs2 where
      s2: "same_records w1 w'" and t2: "trace w' = trace w1 @ evs2" "list_all sync_event evs2" by blast
    from t1 t2 have "trace w' = trace w @ (evs1 @ evs2)" "list_all sync_event (evs1 @ evs2)" by simp_all
    with same_records_trans[OF s1 s2] show ?thesis by blast
  qed
qed

lemma quiet_try_git:
  assumes "quiet m" "quiet h"
  shows "quiet (io_try_git m h)"
proof (rule quietI)
  fix w r w' assume h: "io_try_git m h w = (r, w')"
  obtain r1 w1 where m: "m w = (r1, w1)" by (cases "m w")
  from quietD[OF assms(1) m] obtain evs1 where
    s1: "same_records w w1" and t1: "trace w1 = trace w @ evs1" "list_all sync_event evs1" by blast
  show "same_records w w' \<and> (\<exists>evs. trace w' = trace w @ evs \<and> list_all sync_event evs)"
  proof (cases "r1 = Inl GitCommandError")
    case False
    with h m have "w' = w1" by (auto simp: io_try_git_def split: sum.splits if_splits)
    with s1 t1 show ?thesis by blast
  next
    case True
    with h m have fx: "h w1 = (r, w')" by (simp add: io_try_git_def)
    from quietD[OF assms(2) fx] obtain evs2 where
      s2: "same_records w1 w'" and t2: "trace w' = trace w1 @ evs2" "list_all sync_event evs2" by blast
    from t1 t2 have "trace w' = trace w @ (evs1 @ evs2)" "list_all sync_event (evs1 @ evs2)" by simp_all
    with same_records_trans[OF s1 s2] show ?thesis by blast
  qed
qed

lemma quiet_ext_call:
  assumes "sync_event ev" "\<And>w. same_records w (effect w) \<and> trace (effect w) = trace w"
  shows "quiet (ext_call env ev effect)"
proof (rule quietI)
  fix w r w' assume h: "ext_call env ev effect w = (r, w')"
  let ?w1 = "w\<lparr>trace := trace w @ [ev], tick := Suc (tick w)\<rparr>"
  have s: "same_records w ?w1" by (simp add: same_records_def)
  from h have "w' = ?w1 \<or> w' = effect ?w1"
    by (auto simp: ext_call_def Let_def split: option.splits)
  then show "same_records w w' \<and> (\<exists>evs. trace w' = trace w @ evs \<and> list_all sync_event evs)"
  proof
    assume "w' = ?w1" with s assms(1) show ?thesis by simp
  next
    assume e: "w' = effect ?w1"
    from assms(2)[of ?w1] have "same_records ?w1 w'" "trace w' = trace w @ [ev]" using e by simp_all
    with s assms(1) same_records_trans[OF s] show ?thesis by simp
  qed
qed

lemma quiet_ensure_repo: "quiet (ensure_repo env)"
proof -
  have c: "quiet (git_clone env)" unfolding git_clone_def
    by (rule quiet_ext_call) (simp_all add: sync_event_def same_records_def)
  have su: "quiet (git_set_url env)" unfolding git_set_url_def
    by (rule quiet_ext_call) (simp_all add: sync_event_def same_records_def)
  have f: "quiet (git_fetch env)" unfolding git_fetch_def
    by (rule quiet_ext_call) (simp_all add: sync_event_def same_records_def)
  have co: "quiet (git_checkout env)" unfolding git_checkout_def
    by (rule quiet_ext_call) (simp_all add: sync_event_def same_records_def)
  have rh: "quiet (git_reset_hard env)" unfolding git_reset_hard_def
    by (rule quiet_ext_call) (simp_all add: sync_event_def same_records_def)
  have ic0: "quiet (ext_call env GitIterCommits (\<lambda>w. w))"
    by (rule quiet_ext_call) (simp_all add: sync_event_def same_records_def)
  have ic: "quiet (iter_commits env)"
  proof -
    have "iter_commits env = io_bind (ext_call env GitIterCommits (\<lambda>w. w)) (\<lambda>_ w. (Inr (ahead_of_origin w), w))"
      by (rule ext) (simp add: iter_commits_def io_bind_def split: prod.splits sum.splits)
    moreover have "quiet (\<lambda>w. (Inr (ahead_of_origin w), w))" for dummy :: unit
      by (rule quietI) (auto simp: same_records_def)
    ultimately show ?thesis using quiet_bind[OF ic0] by simp
  qed
  have rb: "quiet (git_rebase env)"
    by (rule quietI) (auto simp: git_rebase_def Let_def same_records_def sync_event_def split: if_splits option.splits)
  have ab: "quiet (git_rebase_abort env)"
    by (rule quietI)
       (auto simp: git_rebase_abort_def Let_def same_records_def sync_event_def split: if_splits option.splits)
  have body: "quiet (io_bind (git_set_url env) (\<lambda>_.
        io_bind (git_fetch env) (\<lambda>_.
        io_bind (git_checkout env) (\<lambda>_.
        io_bind (io_try (iter_commits env) (io_ret [])) (\<lambda>ahead.
          if ahead \<noteq> [] then
            io_try_git (git_rebase env)
              (io_bind (io_try (git_rebase_abort env) (io_ret ())) (\<lambda>_. git_reset_hard env))
          else git_reset_hard env)))))"
    by (intro quiet_bind quiet_try quiet_try_git quiet_ret su f co ic rb ab rh | simp add: rh quiet_try_git quiet_bind quiet_try quiet_ret rb ab)+
  show ?thesis
  proof (rule quietI)
    fix w r w' assume h: "ensure_repo env w = (r, w')"
    show "same_records w w' \<and> (\<exists>evs. trace w' = trace w @ evs \<and> list_all sync_event evs)"
    proof (cases "cloned w")
      case False
      with h have "git_clone env w = (r, w')" by (simp add: ensure_repo_def)
      from quietD[OF c this] show ?thesis by blast
    next
      case True
      with h have "io_bind (git_set_url env) (\<lambda>_.
        io_bind (git_fetch env) (\<lambda>_.
        io_bind (git_checkout env) (\<lambda>_.
        io_bind (io_try (iter_commits env) (io_ret [])) (\<lambda>ahead.
          if ahead \<noteq> [] then
            io_try_git (git_rebase env)
              (io_bind (io_try (git_rebase_abort env) (io_ret ())) (\<lambda>_. git_reset_hard env))
          else git_reset_hard env)))) w = (r, w')" by (simp add: ensure_repo_def)
      from quietD[OF body this] show ?thesis by blast
    qed
  qed
qed


lemma quiet_pure: "(\<And>w. snd (m w) = w) \<Longrightarrow> quiet m"
  by (rule quietI) (auto simp: same_records_def dest: arg_cong[where f=snd])

lemma quiet_cache_only:
  assumes "\<And>w. \<exists>c. snd (m w) = w\<lparr>cache_list := c\<rparr>"
  shows "quiet m"
proof (rule quietI)
  fix w r w' assume "m w = (r, w')"
  with assms[of w] obtain c where "w' = w\<lparr>cache_list := c\<rparr>" by auto
  then show "same_records w w' \<and> (\<exists>evs. trace w' = trace w @ evs \<and> list_all sync_event evs)"
    by (simp add: same_records_def)
qed





lemma handle_content_action_duplicate:
  assumes "check_slug_exists env (a_content_type ad) (dict_get_default (a_frontmatter ad) ''slug'' (PStr [])) w = (Inr True, w1)"
  shows "\<exists>msg. handle_content_action env ad profile conv u w
           = (Inr (msg, ResError (''Duplicate slug: '' @ py_str (dict_get_default (a_frontmatter ad) ''slug'' (PStr [])))), w1)"
  using assms by (simp add: handle_content_action_def Let_def io_bind_def io_ret_def)


section \<open>The checks of the create handler\<close>

lemma generate_markdown_known:
  assumes "generate_markdown ctype fm body = (Some md, errs)"
  shows "\<exists>sch. map_of CONTENT_TYPES ctype = Some sch"
  using assms by (auto simp: generate_markdown_def split: option.splits)

lemma filename_pattern_slug:
  assumes "map_of CONTENT_TYPES ctype = Some sch"
  shows "filename_pattern sch = ''{slug}.md''"
  using assms by (auto simp: CONTENT_TYPES_def article_schema_def briefing_schema_def news_schema_def
        local_event_schema_def local_news_schema_def bio_schema_def ecosystem_schema_def split: if_splits)

lemma format_slug_md: "format_slug ''{slug}.md'' s = s @ ''.md''"
  by simp

lemma get_file_path_known:
  assumes "map_of CONTENT_TYPES ctype = Some sch"
  shows "get_file_path ctype slug_v = Inr (directory sch @ py_str slug_v @ ''.md'')"
  using assms filename_pattern_slug[OF assms] by (simp add: get_file_path_def format_slug_md)

lemma handle_content_action_gate:
  assumes "passes_checks env ad profile conv w w1 md ib ip w2"
  shows "handle_content_action env ad profile conv u w =
     (if can_publish_directly profile (a_content_type ad) (intent_group ad)
      then io_try (intent_publish_attempt env conv u ad md ib ip)
             (save_pending env (intent_pending_draft conv u ad ib ip)
                (\<lambda>i. ''There was an error publishing the content, but I'' @ [CHR 0x27]
                        @ ''ve saved it as a draft (#'' @ string_of_nat i
                        @ ''). An admin can review and publish it from the Pending dashboard.''))
      else save_pending env (intent_pending_draft conv u ad ib ip)
             (\<lambda>i. ''Your '' @ a_content_type ad @ '' '' @ [CHR 0x22] @ py_str (title_of (a_frontmatter ad)) @ [CHR 0x22]
                     @ '' has been saved as a draft and is awaiting approval from an editor or admin.'')) w2"
proof -
  from assms have
    dup: "check_slug_exists env (a_content_type ad) (dict_get_default (a_frontmatter ad) ''slug'' (PStr [])) w = (Inr False, w1)"
    and cc: "can_create profile (a_content_type ad) (dict_get_default (a_frontmatter ad) ''localGroup'' (PStr []))"
    and gm: "generate_markdown (a_content_type ad) (a_frontmatter ad) (case a_body ad of None \<Rightarrow> [] | Some b \<Rightarrow> b) = (Some md, [])"
    and ri: "resolve_image env conv (a_content_type ad) (dict_get_default (a_frontmatter ad) ''slug'' (PStr [])) (a_images ad) w1 = (Inr (ib, ip), w2)"
    by (simp_all add: passes_checks_def intent_slug_def intent_group_def intent_body_def)
  from generate_markdown_known[OF gm] obtain sch where sch: "map_of CONTENT_TYPES (a_content_type ad) = Some sch" by blast
  note fp = get_file_path_known[OF sch]
  show ?thesis
    unfolding handle_content_action_def Let_def
    by (simp add: io_bind_def dup cc gm ri fp lift_exn_def io_ret_def
        intent_publish_attempt_def intent_pending_draft_def intent_file_path_def intent_slug_def intent_group_def intent_body_def)
qed

section \<open>Runs in which no call fails\<close>



lemma ok_from_Suc: "ok_from env n \<Longrightarrow> ok_from env (Suc n)"
  by (simp add: ok_from_def)


lemma ext_call_fails:
  "fails env (tick w) = Some e \<Longrightarrow>
     ext_call env ev effect w = (Inl e, w\<lparr>trace := trace w @ [ev], tick := Suc (tick w)\<rparr>)"
  by (simp add: ext_call_def)


lemma draft_create_ok:
  assumes "fails env (tick w) = None" and "json_serializable (PDict (frontmatter_json d))"
  shows "draft_create env d w =
           (Inr (d\<lparr>draft_id := length (drafts w)\<rparr>),
            w\<lparr>trace := trace w @ [DraftCreate (status d)], tick := Suc (tick w),
              drafts := drafts w @ [d\<lparr>draft_id := length (drafts w)\<rparr>]\<rparr>)"
  using assms by (simp add: draft_create_def io_bind_def io_ret_def ext_call_def)

lemma draft_create_refused:
  assumes "\<not> json_serializable (PDict (frontmatter_json d))"
  shows "draft_create env d w = (Inl TypeError, w)"
  using assms by (simp add: draft_create_def)

lemma save_pending_ok:
  assumes "fails env (tick w) = None" and "json_serializable (PDict (frontmatter_json d))"
  shows "save_pending env d reply w =
           (Inr (reply (length (drafts w)), ResDraftPending (length (drafts w))),
            w\<lparr>trace := trace w @ [DraftCreate (status d)], tick := Suc (tick w),
              drafts := drafts w @ [d\<lparr>draft_id := length (drafts w)\<rparr>]\<rparr>)"
  using assms by (simp add: save_pending_def draft_create_ok io_bind_def io_ret_def)

lemma save_pending_refused:
  assumes "\<not> json_serializable (PDict (frontmatter_json d))"
  shows "save_pending env d reply w = (Inl TypeError, w)"
  using assms by (simp add: save_pending_def draft_create_refused io_bind_def)


















section \<open>The two branches of the create handler\<close>





section \<open>Example runs\<close>

lemma article_valid:
  "generate_markdown ''article'' article_fm ''Body text'' = (Some article_md, [])"
proof -
  have "fst (generate_markdown ''article'' article_fm ''Body text'') \<noteq> None"
    "snd (generate_markdown ''article'' article_fm ''Body text'') = []" by code_simp+
  then show ?thesis unfolding article_md_def by (metis option.collapse prod.collapse)
qed

lemma article_intent_parts:
  "a_content_type article_intent = ''article''" "intent_slug article_intent = PStr ''hello''"
  "intent_body article_intent = ''Body text''" "a_frontmatter article_intent = article_fm"
  "a_images article_intent = []" "intent_group article_intent = PStr []"
  by (simp_all add: article_intent_def intent_slug_def intent_body_def intent_group_def article_fm_def
      dict_get_default_def)

lemma article_passes:
  assumes "fst (check_slug_exists env ''article'' (PStr ''hello'') w0) = Inr False"
    and "can_create profile ''article'' (PStr [])"
  shows "passes_checks env article_intent profile conv w0 (w0_checked env) article_md None None (w0_checked env)"
proof -
  have "check_slug_exists env ''article'' (PStr ''hello'') w0 = (Inr False, w0_checked env)"
    using assms(1) unfolding w0_checked_def by (metis prod.collapse)
  then show ?thesis using assms(2)
    by (simp add: passes_checks_def article_intent_parts article_valid resolve_image_def io_ret_def)
qed






lemma article_json: "json_serializable (PDict (a_frontmatter article_intent))"
  by (simp add: article_intent_def article_fm_def)



lemma commits_differ: "c_local \<noteq> c_base" "c_local \<noteq> c_remote" "c_base \<noteq> c_remote" "c_remote \<noteq> c_base"
  by (simp_all add: c_local_def c_base_def c_remote_def)

section \<open>C1: a failed publish is kept as a pending draft\<close>

lemma fetch_down_slug_free: "fst (check_slug_exists env_fetch_down ''article'' (PStr ''hello'') w0) = Inr False" by code_simp
lemma editor_may_create_article: "can_create editor_profile ''article'' (PStr [])" by code_simp
lemma editor_publishes_article: "can_publish_directly editor_profile ''article'' (PStr [])" by code_simp
lemma fetch_down_attempt_raises: "fst (intent_publish_attempt env_fetch_down 7 erin article_intent article_md None None (w0_checked env_fetch_down)) = Inl GitCommandError"
  by code_simp
lemma fetch_down_insert_accepted: "fails env_fetch_down (tick (snd (intent_publish_attempt env_fetch_down 7 erin article_intent article_md None None (w0_checked env_fetch_down)))) = None"
  by code_simp
lemma fetch_down_no_rows: "drafts (snd (intent_publish_attempt env_fetch_down 7 erin article_intent article_md None None (w0_checked env_fetch_down))) = []"
  by code_simp

lemma db_down_slug_free: "fst (check_slug_exists env_db_down ''article'' (PStr ''hello'') w0) = Inr False" by code_simp
lemma db_down_attempt_raises: "fst (intent_publish_attempt env_db_down 7 erin article_intent article_md None None (w0_checked env_db_down)) = Inl OtherError"
  by code_simp
lemma db_down_handler_raises: "fst (handle_content_action env_db_down article_intent editor_profile 7 erin w0) = Inl OtherError"
  by code_simp
lemma db_down_no_rows: "drafts (snd (handle_content_action env_db_down article_intent editor_profile 7 erin w0)) = []"
  by code_simp
lemma db_down_commit_made: "map message (local_branch (snd (handle_content_action env_db_down article_intent editor_profile 7 erin w0))) =
   [''Add article: Hello '' @ em_dash @ '' via MMTUK CMS (erin)'']"
  by code_simp

text \<open>
  When the database refuses the pending row of the \<open>except\<close> branch, the handler raises
  what the insertion raised and no draft is recorded, whatever made the attempt fail.
\<close>

lemma fallback_insertion_refused:
  assumes checks: "passes_checks env ad profile conv w w1 md ib ip w2"
    and direct: "can_publish_directly profile (a_content_type ad) (intent_group ad)"
    and raised: "intent_publish_attempt env conv u ad md ib ip w2 = (Inl e, w3)"
    and refused: "fails env (tick w3) = Some e'"
  shows "fst (handle_content_action env ad profile conv u w)
           = Inl (if json_serializable (PDict (a_frontmatter ad)) then e' else TypeError)
       \<and> drafts (snd (handle_content_action env ad profile conv u w)) = drafts w3"
  unfolding handle_content_action_gate[OF checks, of u] using direct raised refused
  by (simp add: io_try_def save_pending_def draft_create_def io_bind_def ext_call_def
      intent_pending_draft_def pending_draft_def)

text \<open>
  C1. The claim: when the frontmatter of a create intent has passed validation, the actor
  can publish directly and the publish attempt raises, the handler returns a
  \<open>draft_pending\<close> result instead of the exception, and a pending draft then holds the
  frontmatter, body, image bytes and image path that were about to be published.
  The \<open>except\<close> branch itself inserts the pending row, and nothing catches an exception
  of that insertion: the theorem is the claim for the runs in which the insertion of the
  pending row is accepted, that is, the database takes it (\<open>stored\<close>) and the
  frontmatter is JSON data, as every frontmatter that \<open>json.loads\<close> hands to the
  handler is. A frontmatter holding a date would be refused by the JSON field: the
  handler then raises the \<open>TypeError\<close> of the insertion.
\<close>

theorem C1_publish_failure_saved_as_pending:
  assumes checks: "passes_checks env ad profile conv w w1 md ib ip w2"
    and direct: "can_publish_directly profile (a_content_type ad) (intent_group ad)"
    and raised: "intent_publish_attempt env conv u ad md ib ip w2 = (Inl e, w3)"
    and stored: "fails env (tick w3) = None"
  shows "(json_serializable (PDict (a_frontmatter ad)) \<longrightarrow>
            action_result_of (handle_content_action env ad profile conv u w)
              = Inr (ResDraftPending (length (drafts w3)))
          \<and> drafts (snd (handle_content_action env ad profile conv u w))
              = drafts w3 @ [(intent_pending_draft conv u ad ib ip)\<lparr>draft_id := length (drafts w3)\<rparr>])
       \<and> status (intent_pending_draft conv u ad ib ip) = ''pending''
       \<and> frontmatter_json (intent_pending_draft conv u ad ib ip) = a_frontmatter ad
       \<and> body_markdown (intent_pending_draft conv u ad ib ip) = intent_body ad
       \<and> image_data (intent_pending_draft conv u ad ib ip) = ib
       \<and> image_path (intent_pending_draft conv u ad ib ip) = (case ip of None \<Rightarrow> [] | Some p \<Rightarrow> p)
       \<and> (\<not> json_serializable (PDict (a_frontmatter ad)) \<longrightarrow>
            handle_content_action env ad profile conv u w = (Inl TypeError, w3))"
proof -
  note g = handle_content_action_gate[OF checks, of u]
  have fj: "frontmatter_json (intent_pending_draft conv u ad ib ip) = a_frontmatter ad"
    by (simp add: intent_pending_draft_def pending_draft_def)
  have a: "action_result_of (handle_content_action env ad profile conv u w)
              = Inr (ResDraftPending (length (drafts w3)))
          \<and> drafts (snd (handle_content_action env ad profile conv u w))
              = drafts w3 @ [(intent_pending_draft conv u ad ib ip)\<lparr>draft_id := length (drafts w3)\<rparr>]"
    if json: "json_serializable (PDict (a_frontmatter ad))"
  proof -
    from json fj have jp: "json_serializable (PDict (frontmatter_json (intent_pending_draft conv u ad ib ip)))"
      by simp
    show ?thesis
      unfolding g using direct raised
      by (simp add: io_try_def save_pending_ok[OF stored jp] action_result_of_def)
  qed
  have b: "handle_content_action env ad profile conv u w = (Inl TypeError, w3)"
    if nj: "\<not> json_serializable (PDict (a_frontmatter ad))"
  proof -
    from nj fj have jp: "\<not> json_serializable (PDict (frontmatter_json (intent_pending_draft conv u ad ib ip)))"
      by simp
    show ?thesis
      unfolding g using direct raised by (simp add: io_try_def save_pending_refused[OF jp])
  qed
  have c: "status (intent_pending_draft conv u ad ib ip) = ''pending''"
    "body_markdown (intent_pending_draft conv u ad ib ip) = intent_body ad"
    "image_data (intent_pending_draft conv u ad ib ip) = ib"
    "image_path (intent_pending_draft conv u ad ib ip) = (case ip of None \<Rightarrow> [] | Some p \<Rightarrow> p)"
    by (simp_all add: intent_pending_draft_def pending_draft_def)
  from a b c fj show ?thesis by blast
qed

theorem C1_witness:
  "passes_checks env_fetch_down article_intent editor_profile 7 w0 (w0_checked env_fetch_down) article_md None None
       (w0_checked env_fetch_down)
   \<and> can_publish_directly editor_profile (a_content_type article_intent) (intent_group article_intent)
   \<and> fst (intent_publish_attempt env_fetch_down 7 erin article_intent article_md None None (w0_checked env_fetch_down))
       = Inl GitCommandError
   \<and> action_result_of (handle_content_action env_fetch_down article_intent editor_profile 7 erin w0)
       = Inr (ResDraftPending 0)
   \<and> drafts (snd (handle_content_action env_fetch_down article_intent editor_profile 7 erin w0))
       = [(intent_pending_draft 7 erin article_intent None None)\<lparr>draft_id := 0\<rparr>]
   \<and> status (intent_pending_draft 7 erin article_intent None None) = ''pending''
   \<and> frontmatter_json (intent_pending_draft 7 erin article_intent None None) = article_fm
   \<and> body_markdown (intent_pending_draft 7 erin article_intent None None) = ''Body text''"
proof -
  let ?w3 = "snd (intent_publish_attempt env_fetch_down 7 erin article_intent article_md None None (w0_checked env_fetch_down))"
  have p: "passes_checks env_fetch_down article_intent editor_profile 7 w0 (w0_checked env_fetch_down) article_md None None
       (w0_checked env_fetch_down)" by (rule article_passes[OF fetch_down_slug_free editor_may_create_article])
  have d: "can_publish_directly editor_profile (a_content_type article_intent) (intent_group article_intent)"
    using editor_publishes_article by (simp add: article_intent_parts)
  have r: "intent_publish_attempt env_fetch_down 7 erin article_intent article_md None None (w0_checked env_fetch_down)
             = (Inl GitCommandError, ?w3)" using fetch_down_attempt_raises by (metis prod.collapse)
  note T = C1_publish_failure_saved_as_pending[OF p d r fetch_down_insert_accepted]
  from T[THEN conjunct1, rule_format, OF article_json] T[THEN conjunct2]
    p d fetch_down_attempt_raises fetch_down_no_rows
  show ?thesis by (simp add: article_intent_parts)
qed

text \<open>
  Where the claim fails: the database refuses the published row (the attempt raises after
  the commit was made) and then refuses the pending row too. The handler raises, and no
  draft exists.
\<close>

theorem C1_counterexample:
  "passes_checks env_db_down article_intent editor_profile 7 w0 (w0_checked env_db_down) article_md None None
       (w0_checked env_db_down)
   \<and> can_publish_directly editor_profile (a_content_type article_intent) (intent_group article_intent)
   \<and> fst (intent_publish_attempt env_db_down 7 erin article_intent article_md None None (w0_checked env_db_down))
       = Inl OtherError
   \<and> fst (handle_content_action env_db_down article_intent editor_profile 7 erin w0) = Inl OtherError
   \<and> drafts (snd (handle_content_action env_db_down article_intent editor_profile 7 erin w0)) = []"
  using article_passes[OF db_down_slug_free editor_may_create_article, of 7] editor_publishes_article db_down_attempt_raises db_down_handler_raises db_down_no_rows by (simp add: article_intent_parts)

section \<open>C2: which operations take the git lock\<close>

lemma sync_event_unlocked: "sync_event e \<Longrightarrow> \<not> under_lock False (e # es)"
  by (cases e) (simp_all add: sync_event_def)

lemma quiet_after_set_url:
  "quiet (io_bind (git_fetch env) (\<lambda>_.
          io_bind (git_checkout env) (\<lambda>_.
          io_bind (io_try (iter_commits env) (io_ret [])) (\<lambda>ahead.
            if ahead \<noteq> [] then
              io_try_git (git_rebase env)
                (io_bind (io_try (git_rebase_abort env) (io_ret ())) (\<lambda>_. git_reset_hard env))
            else git_reset_hard env))))"
proof -
  have f: "quiet (git_fetch env)" unfolding git_fetch_def
    by (rule quiet_ext_call) (simp_all add: sync_event_def same_records_def)
  have co: "quiet (git_checkout env)" unfolding git_checkout_def
    by (rule quiet_ext_call) (simp_all add: sync_event_def same_records_def)
  have rh: "quiet (git_reset_hard env)" unfolding git_reset_hard_def
    by (rule quiet_ext_call) (simp_all add: sync_event_def same_records_def)
  have ic0: "quiet (ext_call env GitIterCommits (\<lambda>w. w))"
    by (rule quiet_ext_call) (simp_all add: sync_event_def same_records_def)
  have ic: "quiet (iter_commits env)"
  proof -
    have "iter_commits env = io_bind (ext_call env GitIterCommits (\<lambda>w. w)) (\<lambda>_ w. (Inr (ahead_of_origin w), w))"
      by (rule ext) (simp add: iter_commits_def io_bind_def split: prod.splits sum.splits)
    moreover have "quiet (\<lambda>w. (Inr (ahead_of_origin w), w))"
      by (rule quietI) (auto simp: same_records_def)
    ultimately show ?thesis using quiet_bind[OF ic0] by simp
  qed
  have rb: "quiet (git_rebase env)"
    by (rule quietI) (auto simp: git_rebase_def Let_def same_records_def sync_event_def split: if_splits option.splits)
  have ab: "quiet (git_rebase_abort env)"
    by (rule quietI)
       (auto simp: git_rebase_abort_def Let_def same_records_def sync_event_def split: if_splits option.splits)
  show ?thesis
    by (intro quiet_bind quiet_try quiet_try_git quiet_ret f co ic rb ab rh | simp add: rh quiet_try_git quiet_bind quiet_try quiet_ret rb ab)+
qed

lemma ensure_repo_first_event:
  "\<exists>e evs. trace (snd (ensure_repo env w)) = trace w @ e # evs \<and> sync_event e"
proof (cases "cloned w")
  case False
  then have "trace (snd (ensure_repo env w)) = trace w @ [GitClone]"
    by (simp add: ensure_repo_def git_clone_def ext_call_def Let_def split: option.splits)
  then show ?thesis by (simp add: sync_event_def)
next
  case True
  let ?w1 = "w\<lparr>trace := trace w @ [GitSetUrl], tick := Suc (tick w)\<rparr>"
  let ?F = "io_bind (git_fetch env) (\<lambda>_.
          io_bind (git_checkout env) (\<lambda>_.
          io_bind (io_try (iter_commits env) (io_ret [])) (\<lambda>ahead.
            if ahead \<noteq> [] then
              io_try_git (git_rebase env)
                (io_bind (io_try (git_rebase_abort env) (io_ret ())) (\<lambda>_. git_reset_hard env))
            else git_reset_hard env)))"
  show ?thesis
  proof (cases "fails env (tick w)")
    case (Some e)
    with True have "trace (snd (ensure_repo env w)) = trace w @ [GitSetUrl]"
      by (simp add: ensure_repo_def git_set_url_def ext_call_def Let_def io_bind_def)
    then show ?thesis by (simp add: sync_event_def)
  next
    case None
    with True have e: "ensure_repo env w = ?F ?w1"
      by (simp add: ensure_repo_def git_set_url_def ext_call_def Let_def io_bind_def)
    obtain r w' where rw: "?F ?w1 = (r, w')" by (cases "?F ?w1")
    from quietD[OF quiet_after_set_url rw] obtain evs where "trace w' = trace ?w1 @ evs" by blast
    with e rw have "trace (snd (ensure_repo env w)) = trace w @ GitSetUrl # evs" by simp
    then show ?thesis by (auto simp: sync_event_def)
  qed
qed

lemma ensure_repo_lock_untouched: "lock_held (snd (ensure_repo env w)) = lock_held w"
proof -
  obtain r w' where rw: "ensure_repo env w = (r, w')" by (cases "ensure_repo env w")
  from quietD[OF quiet_ensure_repo rw] have "same_records w w'" by blast
  with rw show ?thesis by (simp add: same_records_def)
qed

lemma write_file_to_repo_event:
  "trace (snd (write_file_to_repo env p c w)) = trace w @ [WriteRepo p]"
  "lock_held (snd (write_file_to_repo env p c w)) = lock_held w"
  by (simp_all add: write_file_to_repo_def ext_call_def Let_def split: option.splits)

lemma delete_hello_event:
  "trace (snd (delete_file_from_repo env0 hello_path w_dup)) = [DeleteRepo hello_path]" by code_simp
lemma delete_hello_done:
  "fst (delete_file_from_repo env0 hello_path w_dup) = Inr True" by code_simp
lemma commit_hello_locked:
  "under_lock False (trace (snd (commit_locally env0 [hello_path] ''Add article: Hello'' ''Erin Editor'' w_dup)))"
  by code_simp
lemma commit_hello_events:
  "trace (snd (commit_locally env0 [hello_path] ''Add article: Hello'' ''Erin Editor'' w_dup))
     = [LockAcquire, GitIndexAdd hello_path, GitCommit ''Add article: Hello'', LockRelease]" by code_simp
lemma push_unpushed_events:
  "trace (snd (push_to_remote env0 w_unpushed)) = [LockAcquire, GitIterCommits, GitPush, LockRelease]" by code_simp

text \<open>
  C2. The claim is that \<open>ensure_repo\<close>, \<open>write_file_to_repo\<close>, \<open>delete_file_from_repo\<close>,
  \<open>commit_locally\<close> and \<open>push_to_remote\<close> all run while holding the git lock. In the
  code \<open>commit_locally\<close> and \<open>push_to_remote\<close> take the lock, and the other three do
  not: every run of \<open>ensure_repo\<close> touches the clone with no lock taken and leaves the
  lock as it found it, so does every \<open>write_file_to_repo\<close>, and so does the deletion of
  a file that exists.
\<close>

theorem C2_repo_operations_outside_lock:
  "(\<exists>evs. trace (snd (ensure_repo env w)) = trace w @ evs \<and> \<not> under_lock False evs
          \<and> LockAcquire \<notin> set evs)
   \<and> lock_held (snd (ensure_repo env w)) = lock_held w
   \<and> trace (snd (write_file_to_repo env p c w)) = trace w @ [WriteRepo p]
   \<and> \<not> under_lock False [WriteRepo p]
   \<and> fst (delete_file_from_repo env0 hello_path w_dup) = Inr True
   \<and> trace (snd (delete_file_from_repo env0 hello_path w_dup)) = [DeleteRepo hello_path]
   \<and> \<not> under_lock False [DeleteRepo hello_path]
   \<and> trace (snd (commit_locally env0 [hello_path] ''Add article: Hello'' ''Erin Editor'' w_dup))
        = [LockAcquire, GitIndexAdd hello_path, GitCommit ''Add article: Hello'', LockRelease]
   \<and> trace (snd (push_to_remote env0 w_unpushed)) = [LockAcquire, GitIterCommits, GitPush, LockRelease]
   \<and> under_lock False [LockAcquire, GitIndexAdd hello_path, GitCommit ''Add article: Hello'', LockRelease]
   \<and> under_lock False [LockAcquire, GitIterCommits, GitPush, LockRelease]"
proof -
  obtain r w' where rw: "ensure_repo env w = (r, w')" by (cases "ensure_repo env w")
  from quietD[OF quiet_ensure_repo rw] obtain evs where
    t: "trace w' = trace w @ evs" and s: "list_all sync_event evs" by blast
  from ensure_repo_first_event[of env w] rw t obtain e es where "evs = e # es" "sync_event e" by auto
  then have "\<not> under_lock False evs" by (simp add: sync_event_unlocked)
  moreover from s have "LockAcquire \<notin> set evs" by (auto simp: list_all_iff sync_event_def)
  ultimately have a: "\<exists>evs. trace (snd (ensure_repo env w)) = trace w @ evs \<and> \<not> under_lock False evs
          \<and> LockAcquire \<notin> set evs" using rw t by auto
  show ?thesis
    using a ensure_repo_lock_untouched[of env w] write_file_to_repo_event(1)[of env p c w]
      delete_hello_done delete_hello_event commit_hello_events push_unpushed_events
    by simp
qed

section \<open>C3: the pending-drafts listing\<close>

lemma pending_list_admin_editor:
  "role p \<in> {''admin'', ''editor''} \<Longrightarrow>
     pending_list p ds = Rendered (filter (\<lambda>d. status d = ''pending'') ds)"
  by (auto simp: pending_list_def can_approve_def)

lemma pending_list_group_lead:
  "role p = ''group_lead'' \<Longrightarrow> pending_list p ds = HttpResponseForbidden"
  by (simp add: pending_list_def can_approve_def)

text \<open>
  C3. The claim: a group lead may list the pending drafts and sees exactly the pending
  \<open>local_event\<close>/\<open>local_news\<close> drafts of the own group; admins and editors see all
  pending drafts. In the code the listing first asks \<open>can_approve()\<close> with no content
  type and no group, which a group lead never passes: the lead of Oxford is refused
  although a pending Oxford event exists, which the scoped check
  \<open>can_approve('local_event', 'oxford')\<close> lets the same lead approve.
\<close>

theorem C3_pending_list_refuses_group_lead:
  "pending_list oxford_lead [oxford_pending_draft] = HttpResponseForbidden
   \<and> can_approve oxford_lead (Some (content_type oxford_pending_draft))
         (dict_get_default (frontmatter_json oxford_pending_draft) ''localGroup'' (PStr []))
   \<and> status oxford_pending_draft = ''pending''"
  by (simp add: pending_list_def can_approve_def oxford_lead_def oxford_pending_draft_def
      oxford_event_fm_def dict_get_default_def)

section \<open>C4: a group lead publishes directly for the own group only\<close>



section \<open>C5: who publishes directly\<close>






section \<open>C6: a duplicate slug\<close>



section \<open>C7: an edit merges the supplied frontmatter into the existing one\<close>


lemma map_of_rev_distinct: "distinct (map fst kvs) \<Longrightarrow> map_of (rev kvs) = map_of kvs"
  by (rule map_of_inject_set[THEN iffD2]) (simp_all add: rev_map[symmetric])




































lemma hand_event_merged_json: "json_serializable (PDict (edit_merged ex_hand_event edit_intent))" by code_simp






section \<open>C8: rebase, or reset\<close>

lemma rebased_keeps:
  "map message (rebased env cs) = map message cs"
  "map author (rebased env cs) = map author cs"
  "map changes (rebased env cs) = map changes cs"
  by (simp_all add: rebased_def comp_def)

lemma ensure_repo_fetched:
  assumes "cloned w"
    and "fails env (tick w) = None" "fails env (tick w + 1) = None" "fails env (tick w + 2) = None"
  shows "ensure_repo env w =
           io_bind (io_try (iter_commits env) (io_ret [])) (\<lambda>ahead.
             if ahead \<noteq> [] then
               io_try_git (git_rebase env)
                 (io_bind (io_try (git_rebase_abort env) (io_ret ())) (\<lambda>_. git_reset_hard env))
             else git_reset_hard env)
             (w\<lparr>origin_ref := upstream w, trace := trace w @ [GitSetUrl, GitFetch, GitCheckout],
                tick := tick w + 3\<rparr>)"
proof -
  have f: "fails env (tick w) = None" "fails env (Suc (tick w)) = None" "fails env (Suc (Suc (tick w))) = None"
    using assms by (simp_all add: eval_nat_numeral)
  show ?thesis
    using assms(1) f
    by (simp add: ensure_repo_def io_bind_def git_set_url_def git_fetch_def git_checkout_def ext_call_def
        Let_def eval_nat_numeral)
qed

lemma ensure_repo_listed:
  assumes "cloned w"
    and "fails env (tick w) = None" "fails env (tick w + 1) = None"
        "fails env (tick w + 2) = None" "fails env (tick w + 3) = None"
  shows "ensure_repo env w =
           (let w4 = w\<lparr>origin_ref := upstream w,
                        trace := trace w @ [GitSetUrl, GitFetch, GitCheckout, GitIterCommits],
                        tick := tick w + 4\<rparr>
            in if filter (\<lambda>c. c \<notin> set (upstream w)) (local_branch w) \<noteq> [] then
                 io_try_git (git_rebase env)
                   (io_bind (io_try (git_rebase_abort env) (io_ret ())) (\<lambda>_. git_reset_hard env)) w4
               else git_reset_hard env w4)"
proof -
  have f: "fails env (Suc (Suc (Suc (tick w)))) = None"
    using assms(5) by (simp add: eval_nat_numeral)
  show ?thesis
    using f
    by (simp add: ensure_repo_fetched[OF assms(1-4)] io_bind_def io_try_def io_ret_def
        iter_commits_def ext_call_def Let_def ahead_of_origin_def eval_nat_numeral)
qed

lemma ensure_repo_listing_raises:
  assumes "cloned w"
    and "fails env (tick w) = None" "fails env (tick w + 1) = None" "fails env (tick w + 2) = None"
    and "fails env (tick w + 3) = Some e" and "fails env (tick w + 4) = None"
  shows "ensure_repo env w =
           (Inr (), w\<lparr>origin_ref := upstream w, local_branch := upstream w,
                       clone_files := files_at env (upstream w) (clone_files w),
                       trace := trace w @ [GitSetUrl, GitFetch, GitCheckout, GitIterCommits, GitResetHard],
                       tick := tick w + 5\<rparr>)"
proof -
  have f: "fails env (Suc (Suc (Suc (tick w)))) = Some e" "fails env (Suc (Suc (Suc (Suc (tick w))))) = None"
    using assms(5,6) by (simp_all add: eval_nat_numeral)
  show ?thesis
    using f
    by (simp add: ensure_repo_fetched[OF assms(1-4)] io_bind_def io_try_def io_ret_def
        iter_commits_def git_reset_hard_def ext_call_def Let_def eval_nat_numeral)
qed

text \<open>
  C8, as amended. \<open>ensure_repo\<close> on an existing clone, when the commands up to the
  checkout return. The unpushed commits are the local commits that the fetched remote
  branch does not have.

  When listing them succeeds and there are some: if the rebase succeeds, the local
  branch is the rebased commits on top of the remote's, with their messages and
  changes, and no reset is run. If the rebase fails with a git error (or git refuses
  it because a rebase is in progress), the abort is attempted and then the branch is
  reset to the remote's, the local commits discarded; the result is not mid-rebase
  provided that the abort, where there is a rebase to abort, succeeds. If that abort
  fails, the failure is swallowed, the reset runs all the same, and \<open>ensure_repo\<close>
  returns with the rebase still in progress.

  When there are no unpushed commits the branch is reset to the remote's. When listing
  the unpushed commits raises, they are taken to be none: the branch is reset to the
  remote's without any rebase, whatever was unpushed.
\<close>

theorem C8_ensure_repo_rebase_or_reset:
  assumes "cloned w"
    and "fails env (tick w) = None" "fails env (tick w + 1) = None" "fails env (tick w + 2) = None"
  shows
    "(fails env (tick w + 3) = None
        \<and> filter (\<lambda>c. c \<notin> set (upstream w)) (local_branch w) \<noteq> [] \<and> \<not> rebase_in_progress w
        \<and> fails env (tick w + 4) = None \<longrightarrow>
        (\<exists>w'. ensure_repo env w = (Inr (), w')
              \<and> local_branch w' = rebased env (filter (\<lambda>c. c \<notin> set (upstream w)) (local_branch w)) @ upstream w
              \<and> map message (local_branch w') = map message (filter (\<lambda>c. c \<notin> set (upstream w)) (local_branch w) @ upstream w)
              \<and> map changes (local_branch w') = map changes (filter (\<lambda>c. c \<notin> set (upstream w)) (local_branch w) @ upstream w)
              \<and> origin_ref w' = upstream w \<and> \<not> rebase_in_progress w'
              \<and> GitResetHard \<notin> set (drop (length (trace w)) (trace w'))))
   \<and> (fails env (tick w + 3) = None
        \<and> filter (\<lambda>c. c \<notin> set (upstream w)) (local_branch w) \<noteq> []
        \<and> (rebase_in_progress w \<or> fails env (tick w + 4) = Some GitCommandError)
        \<and> fails env (tick w + 6) = None \<longrightarrow>
        (\<exists>w'. ensure_repo env w = (Inr (), w')
              \<and> local_branch w' = upstream w \<and> origin_ref w' = upstream w
              \<and> rebase_in_progress w'
                  = ((rebase_in_progress w \<or> rebase_stops_midway env (tick w + 4)) \<and> fails env (tick w + 5) \<noteq> None)
              \<and> drop (length (trace w)) (trace w')
                  = [GitSetUrl, GitFetch, GitCheckout, GitIterCommits, GitRebase, GitRebaseAbort, GitResetHard]))
   \<and> (fails env (tick w + 3) = None
        \<and> filter (\<lambda>c. c \<notin> set (upstream w)) (local_branch w) = [] \<and> fails env (tick w + 4) = None \<longrightarrow>
        (\<exists>w'. ensure_repo env w = (Inr (), w')
              \<and> local_branch w' = upstream w \<and> origin_ref w' = upstream w
              \<and> rebase_in_progress w' = rebase_in_progress w
              \<and> drop (length (trace w)) (trace w')
                  = [GitSetUrl, GitFetch, GitCheckout, GitIterCommits, GitResetHard]))
   \<and> (fails env (tick w + 3) \<noteq> None \<and> fails env (tick w + 4) = None \<longrightarrow>
        (\<exists>w'. ensure_repo env w = (Inr (), w')
              \<and> local_branch w' = upstream w \<and> origin_ref w' = upstream w
              \<and> rebase_in_progress w' = rebase_in_progress w
              \<and> drop (length (trace w)) (trace w')
                  = [GitSetUrl, GitFetch, GitCheckout, GitIterCommits, GitResetHard]))"
proof (intro conjI impI)
  let ?A = "filter (\<lambda>c. c \<notin> set (upstream w)) (local_branch w)"
  {
    assume h: "fails env (tick w + 3) = None \<and> ?A \<noteq> [] \<and> \<not> rebase_in_progress w \<and> fails env (tick w + 4) = None"
    then have f3: "fails env (tick w + 3) = None" by simp
    note pre = ensure_repo_listed[OF assms f3]
    from h show "\<exists>w'. ensure_repo env w = (Inr (), w')
              \<and> local_branch w' = rebased env ?A @ upstream w
              \<and> map message (local_branch w') = map message (?A @ upstream w)
              \<and> map changes (local_branch w') = map changes (?A @ upstream w)
              \<and> origin_ref w' = upstream w \<and> \<not> rebase_in_progress w'
              \<and> GitResetHard \<notin> set (drop (length (trace w)) (trace w'))"
      by (simp add: pre Let_def io_try_git_def git_rebase_def ahead_of_origin_def rebased_keeps eval_nat_numeral)
  }
  {
    assume h: "fails env (tick w + 3) = None \<and> ?A \<noteq> []
                 \<and> (rebase_in_progress w \<or> fails env (tick w + 4) = Some GitCommandError)
                 \<and> fails env (tick w + 6) = None"
    then have f3: "fails env (tick w + 3) = None" by simp
    note pre = ensure_repo_listed[OF assms f3]
    from h have r6: "fails env (Suc (Suc (Suc (Suc (Suc (Suc (tick w))))))) = None" by (simp add: eval_nat_numeral)
    from h show "\<exists>w'. ensure_repo env w = (Inr (), w')
              \<and> local_branch w' = upstream w \<and> origin_ref w' = upstream w
              \<and> rebase_in_progress w'
                  = ((rebase_in_progress w \<or> rebase_stops_midway env (tick w + 4)) \<and> fails env (tick w + 5) \<noteq> None)
              \<and> drop (length (trace w)) (trace w')
                  = [GitSetUrl, GitFetch, GitCheckout, GitIterCommits, GitRebase, GitRebaseAbort, GitResetHard]"
      using r6
      by (auto simp: pre Let_def io_try_git_def io_try_def io_bind_def io_ret_def git_rebase_def
            git_rebase_abort_def git_reset_hard_def ext_call_def eval_nat_numeral split: option.splits)
  }
  {
    assume h: "fails env (tick w + 3) = None \<and> ?A = [] \<and> fails env (tick w + 4) = None"
    then have f3: "fails env (tick w + 3) = None" by simp
    note pre = ensure_repo_listed[OF assms f3]
    from h show "\<exists>w'. ensure_repo env w = (Inr (), w')
              \<and> local_branch w' = upstream w \<and> origin_ref w' = upstream w
              \<and> rebase_in_progress w' = rebase_in_progress w
              \<and> drop (length (trace w)) (trace w')
                  = [GitSetUrl, GitFetch, GitCheckout, GitIterCommits, GitResetHard]"
      by (simp add: pre Let_def git_reset_hard_def ext_call_def eval_nat_numeral)
  }
  {
    assume h: "fails env (tick w + 3) \<noteq> None \<and> fails env (tick w + 4) = None"
    then obtain e where f3: "fails env (tick w + 3) = Some e" and f4: "fails env (tick w + 4) = None" by auto
    show "\<exists>w'. ensure_repo env w = (Inr (), w')
              \<and> local_branch w' = upstream w \<and> origin_ref w' = upstream w
              \<and> rebase_in_progress w' = rebase_in_progress w
              \<and> drop (length (trace w)) (trace w')
                  = [GitSetUrl, GitFetch, GitCheckout, GitIterCommits, GitResetHard]"
      by (simp add: ensure_repo_listing_raises[OF assms f3 f4])
  }
qed

theorem C8_witness:
  "cloned w_ahead
   \<and> (\<exists>w'. ensure_repo env0 w_ahead = (Inr (), w')
          \<and> local_branch w' = [c_local\<lparr>sha := ''b2-rebased''\<rparr>, c_remote, c_base]
          \<and> \<not> rebase_in_progress w')
   \<and> (\<exists>w'. ensure_repo env_conflict w_ahead = (Inr (), w')
          \<and> local_branch w' = [c_remote, c_base] \<and> \<not> rebase_in_progress w')
   \<and> (\<exists>w'. ensure_repo env0 w_behind = (Inr (), w') \<and> local_branch w' = [c_remote, c_base])
   \<and> (\<exists>w'. ensure_repo env_listing_fails w_ahead = (Inr (), w') \<and> local_branch w' = [c_remote, c_base])
   \<and> (\<exists>w'. ensure_repo env_abort_fails w_ahead = (Inr (), w')
          \<and> local_branch w' = [c_remote, c_base] \<and> rebase_in_progress w')"
proof -
  have a: "cloned w_ahead" "tick w_ahead = 0" "upstream w_ahead = [c_remote, c_base]"
    "local_branch w_ahead = [c_local, c_base]" "\<not> rebase_in_progress w_ahead"
    by (simp_all add: w_ahead_def w0_def)
  have b: "cloned w_behind" "tick w_behind = 0" "upstream w_behind = [c_remote, c_base]"
    "local_branch w_behind = [c_base]"
    by (simp_all add: w_behind_def w0_def)
  have f0: "fails env0 n = None" for n by (simp add: env0_def)
  have rb: "rebased env0 [c_local] = [c_local\<lparr>sha := ''b2-rebased''\<rparr>]"
    by (simp add: rebased_def env0_def c_local_def)
  from C8_ensure_repo_rebase_or_reset[where w = w_ahead and env = env0]
  have A': "\<exists>w'. ensure_repo env0 w_ahead = (Inr (), w')
          \<and> local_branch w' = [c_local\<lparr>sha := ''b2-rebased''\<rparr>, c_remote, c_base]
          \<and> \<not> rebase_in_progress w'"
    by (auto simp: a f0 commits_differ rb)
  from C8_ensure_repo_rebase_or_reset[where w = w_ahead and env = env_conflict]
  have B': "\<exists>w'. ensure_repo env_conflict w_ahead = (Inr (), w')
          \<and> local_branch w' = [c_remote, c_base] \<and> \<not> rebase_in_progress w'"
    by (auto simp: a commits_differ env_conflict_def env0_def)
  from C8_ensure_repo_rebase_or_reset[where w = w_behind and env = env0]
  have C': "\<exists>w'. ensure_repo env0 w_behind = (Inr (), w') \<and> local_branch w' = [c_remote, c_base]"
    by (auto simp: b f0 commits_differ)
  from C8_ensure_repo_rebase_or_reset[where w = w_ahead and env = env_listing_fails]
  have D': "\<exists>w'. ensure_repo env_listing_fails w_ahead = (Inr (), w') \<and> local_branch w' = [c_remote, c_base]"
    by (auto simp: a env_listing_fails_def env0_def)
  from C8_ensure_repo_rebase_or_reset[where w = w_ahead and env = env_abort_fails]
  have E': "\<exists>w'. ensure_repo env_abort_fails w_ahead = (Inr (), w')
          \<and> local_branch w' = [c_remote, c_base] \<and> rebase_in_progress w'"
    by (auto simp: a commits_differ env_abort_fails_def env0_def)
  from a(1) A' B' C' D' E' show ?thesis by blast
qed

lemma ahead_cloned: "cloned w_ahead" by code_simp

lemma ahead_unpushed: "filter (\<lambda>c. c \<notin> set (upstream w_ahead)) (local_branch w_ahead) = [c_local]"
  by code_simp

lemma listing_fails_run:
  "fst (ensure_repo env_listing_fails w_ahead) = Inr ()"
  "local_branch (snd (ensure_repo env_listing_fails w_ahead)) = [c_remote, c_base]"
  "trace (snd (ensure_repo env_listing_fails w_ahead))
     = [GitSetUrl, GitFetch, GitCheckout, GitIterCommits, GitResetHard]"
  by code_simp+

lemma abort_fails_run:
  "fst (ensure_repo env_abort_fails w_ahead) = Inr ()"
  "local_branch (snd (ensure_repo env_abort_fails w_ahead)) = [c_remote, c_base]"
  "rebase_in_progress (snd (ensure_repo env_abort_fails w_ahead))"
  "trace (snd (ensure_repo env_abort_fails w_ahead))
     = [GitSetUrl, GitFetch, GitCheckout, GitIterCommits, GitRebase, GitRebaseAbort, GitResetHard]"
  by code_simp+

text \<open>
  Where the claim as stated fails, on a mirror with one unpushed commit and a remote
  one commit further. When listing the unpushed commits raises, \<open>ensure_repo\<close> returns
  normally having reset the branch to the remote's: the unpushed commit is gone and no
  rebase was attempted. When the rebase stops on a conflict and the abort fails, it
  returns normally, the branch reset, with the rebase still in progress.
\<close>

theorem C8_counterexample:
  "cloned w_ahead
   \<and> filter (\<lambda>c. c \<notin> set (upstream w_ahead)) (local_branch w_ahead) = [c_local]
   \<and> fst (ensure_repo env_listing_fails w_ahead) = Inr ()
   \<and> local_branch (snd (ensure_repo env_listing_fails w_ahead)) = [c_remote, c_base]
   \<and> GitRebase \<notin> set (trace (snd (ensure_repo env_listing_fails w_ahead)))
   \<and> fst (ensure_repo env_abort_fails w_ahead) = Inr ()
   \<and> local_branch (snd (ensure_repo env_abort_fails w_ahead)) = [c_remote, c_base]
   \<and> rebase_in_progress (snd (ensure_repo env_abort_fails w_ahead))"
  by (simp add: ahead_cloned ahead_unpushed listing_fails_run abort_fails_run)

section \<open>C9: pushing twice\<close>

lemma push_nothing_ahead:
  assumes "ahead_of_origin w = []"
  shows "\<exists>w'. push_to_remote env w = (Inr 0, w')
            \<and> GitPush \<notin> set (drop (length (trace w)) (trace w'))
            \<and> GitPullRebase \<notin> set (drop (length (trace w)) (trace w'))
            \<and> upstream w' = upstream w \<and> local_branch w' = local_branch w \<and> origin_ref w' = origin_ref w"
  using assms
  by (auto simp: push_to_remote_def with_git_lock_def io_ret_def io_bind_def io_try_def open_repo_def
        iter_commits_def ext_call_def Let_def ahead_of_origin_def split: option.splits)

lemma push_once:
  assumes "\<not> DEBUG env" "cloned w" "ahead_of_origin w \<noteq> []"
    and "fails env (tick w) = None" "fails env (tick w + 1) = None"
  shows "push_to_remote env w =
           (Inr (length (ahead_of_origin w)),
            (if suffix (upstream w) (local_branch w)
             then w\<lparr>upstream := local_branch w, origin_ref := local_branch w\<rparr> else w)
              \<lparr>trace := trace w @ [LockAcquire, GitIterCommits, GitPush, LockRelease],
               tick := tick w + 2, lock_held := False\<rparr>)"
proof -
  have f: "fails env (Suc (tick w)) = None" using assms(5) by simp
  show ?thesis
    using assms(1-4) f
    by (simp add: push_to_remote_def with_git_lock_def io_ret_def io_bind_def io_try_def io_try_git_def
        open_repo_def iter_commits_def git_push_def ext_call_def Let_def ahead_of_origin_def)
qed

lemma push_listing_raises:
  assumes "\<not> DEBUG env" "cloned w" "fails env (tick w) = Some e"
  shows "push_to_remote env w =
           (Inr 0, w\<lparr>trace := trace w @ [LockAcquire, GitIterCommits, LockRelease],
                       tick := tick w + 1, lock_held := False\<rparr>)"
  using assms
  by (simp add: push_to_remote_def with_git_lock_def io_ret_def io_bind_def io_try_def
      open_repo_def iter_commits_def ext_call_def Let_def)

lemma push_retried:
  assumes "\<not> DEBUG env" "cloned w" "ahead_of_origin w \<noteq> []"
    and "fails env (tick w) = None" "fails env (tick w + 1) = Some GitCommandError"
    and "fails env (tick w + 2) = None" "fails env (tick w + 3) = None"
  shows "push_to_remote env w =
           (Inr (length (ahead_of_origin w)),
            w\<lparr>upstream := rebased env (filter (\<lambda>c. c \<notin> set (upstream w)) (local_branch w)) @ upstream w,
              origin_ref := rebased env (filter (\<lambda>c. c \<notin> set (upstream w)) (local_branch w)) @ upstream w,
              local_branch := rebased env (filter (\<lambda>c. c \<notin> set (upstream w)) (local_branch w)) @ upstream w,
              clone_files :=
                files_at env (rebased env (filter (\<lambda>c. c \<notin> set (upstream w)) (local_branch w)) @ upstream w)
                  (clone_files w),
              trace := trace w @ [LockAcquire, GitIterCommits, GitPush, GitPullRebase, GitPush, LockRelease],
              tick := tick w + 4, lock_held := False\<rparr>)"
proof -
  have f: "fails env (Suc (tick w)) = Some GitCommandError" "fails env (Suc (Suc (tick w))) = None"
    "fails env (Suc (Suc (Suc (tick w)))) = None"
    using assms(5-7) by (simp_all add: eval_nat_numeral)
  show ?thesis
    using assms(1-4) f
    by (simp add: push_to_remote_def with_git_lock_def io_ret_def io_bind_def io_try_def io_try_git_def
        open_repo_def iter_commits_def git_push_def git_pull_rebase_def ext_call_def Let_def ahead_of_origin_def
        suffix_def eval_nat_numeral)
qed

lemma unpushed_facts:
  "\<not> DEBUG env0" "cloned w_unpushed" "ahead_of_origin w_unpushed = [c_local]" "tick w_unpushed = 0"
  "suffix (upstream w_unpushed) (local_branch w_unpushed)" "local_branch w_unpushed = [c_local, c_base]"
  by code_simp+

lemma diverged_facts:
  "cloned w_ahead" "ahead_of_origin w_ahead = [c_local]" "tick w_ahead = 0"
  "\<not> suffix (upstream w_ahead) (local_branch w_ahead)"
  "local_branch w_ahead = [c_local, c_base]" "upstream w_ahead = [c_remote, c_base]"
  by code_simp+

text \<open>
  C9. With no local commit that the remote-tracking branch lacks, \<open>push_to_remote\<close>
  returns 0 and attempts no push and no pull. With such commits, when the listing and
  the push command return: if the remote accepts the push, the call returns their
  number, nothing is unpushed afterwards, and the next call returns 0 without a push.
  If the remote rejects the push (it has a commit that the local branch lacks), the
  push raises nothing: the call returns the number of unpushed commits all the same,
  with no pull and no second push, and the branches are as before; so the next call
  finds the same commits unpushed, pushes again, and returns the same number, not 0.
  The pull with rebase and the second push run only when the push command itself
  raises a git error; when they succeed the remote has the rebased commits and the next
  call returns 0 without a push. When the listing raises, the count is taken to be 0:
  the call returns 0 without a push, whatever is unpushed.
\<close>

theorem C9_push_twice:
  "(ahead_of_origin w = [] \<longrightarrow>
      (\<exists>w'. push_to_remote env w = (Inr 0, w')
            \<and> GitPush \<notin> set (drop (length (trace w)) (trace w'))
            \<and> GitPullRebase \<notin> set (drop (length (trace w)) (trace w'))
            \<and> upstream w' = upstream w \<and> local_branch w' = local_branch w))
   \<and> (\<not> DEBUG env \<and> cloned w \<and> ahead_of_origin w \<noteq> [] \<and> suffix (upstream w) (local_branch w)
        \<and> fails env (tick w) = None \<and> fails env (tick w + 1) = None \<longrightarrow>
         (\<exists>w1 w2. push_to_remote env w = (Inr (length (ahead_of_origin w)), w1)
              \<and> upstream w1 = local_branch w \<and> local_branch w1 = local_branch w
              \<and> ahead_of_origin w1 = []
              \<and> push_to_remote env w1 = (Inr 0, w2)
              \<and> GitPush \<notin> set (drop (length (trace w1)) (trace w2))
              \<and> upstream w2 = upstream w1 \<and> local_branch w2 = local_branch w1))
   \<and> (\<not> DEBUG env \<and> cloned w \<and> ahead_of_origin w \<noteq> [] \<and> \<not> suffix (upstream w) (local_branch w)
        \<and> fails env (tick w) = None \<and> fails env (tick w + 1) = None
        \<and> fails env (tick w + 2) = None \<and> fails env (tick w + 3) = None \<longrightarrow>
         (\<exists>w1 w2. push_to_remote env w = (Inr (length (ahead_of_origin w)), w1)
              \<and> drop (length (trace w)) (trace w1) = [LockAcquire, GitIterCommits, GitPush, LockRelease]
              \<and> upstream w1 = upstream w \<and> local_branch w1 = local_branch w \<and> origin_ref w1 = origin_ref w
              \<and> push_to_remote env w1 = (Inr (length (ahead_of_origin w)), w2)
              \<and> drop (length (trace w1)) (trace w2) = [LockAcquire, GitIterCommits, GitPush, LockRelease]
              \<and> upstream w2 = upstream w \<and> local_branch w2 = local_branch w))
   \<and> (\<not> DEBUG env \<and> cloned w \<and> ahead_of_origin w \<noteq> []
        \<and> fails env (tick w) = None \<and> fails env (tick w + 1) = Some GitCommandError
        \<and> fails env (tick w + 2) = None \<and> fails env (tick w + 3) = None \<longrightarrow>
         (\<exists>w1 w2. push_to_remote env w = (Inr (length (ahead_of_origin w)), w1)
              \<and> drop (length (trace w)) (trace w1)
                  = [LockAcquire, GitIterCommits, GitPush, GitPullRebase, GitPush, LockRelease]
              \<and> local_branch w1 = rebased env (filter (\<lambda>c. c \<notin> set (upstream w)) (local_branch w)) @ upstream w
              \<and> upstream w1 = local_branch w1
              \<and> push_to_remote env w1 = (Inr 0, w2)
              \<and> GitPush \<notin> set (drop (length (trace w1)) (trace w2))))
   \<and> (\<not> DEBUG env \<and> cloned w \<and> fails env (tick w) \<noteq> None \<longrightarrow>
         (\<exists>w1. push_to_remote env w = (Inr 0, w1)
              \<and> drop (length (trace w)) (trace w1) = [LockAcquire, GitIterCommits, LockRelease]
              \<and> upstream w1 = upstream w \<and> local_branch w1 = local_branch w \<and> origin_ref w1 = origin_ref w))"
proof (intro conjI impI)
  assume "ahead_of_origin w = []"
  from push_nothing_ahead[OF this, of env]
  show "\<exists>w'. push_to_remote env w = (Inr 0, w')
            \<and> GitPush \<notin> set (drop (length (trace w)) (trace w'))
            \<and> GitPullRebase \<notin> set (drop (length (trace w)) (trace w'))
            \<and> upstream w' = upstream w \<and> local_branch w' = local_branch w" by blast
next
  assume h: "\<not> DEBUG env \<and> cloned w \<and> ahead_of_origin w \<noteq> [] \<and> suffix (upstream w) (local_branch w)
        \<and> fails env (tick w) = None \<and> fails env (tick w + 1) = None"
  define w1 where "w1 = w\<lparr>upstream := local_branch w, origin_ref := local_branch w,
      trace := trace w @ [LockAcquire, GitIterCommits, GitPush, LockRelease],
      tick := tick w + 2, lock_held := False\<rparr>"
  from h have p: "push_to_remote env w = (Inr (length (ahead_of_origin w)), w1)"
    by (simp add: push_once w1_def)
  have k: "upstream w1 = local_branch w" "local_branch w1 = local_branch w" "ahead_of_origin w1 = []"
    by (simp_all add: w1_def ahead_of_origin_def)
  from push_nothing_ahead[OF k(3), of env] obtain w2 where
    "push_to_remote env w1 = (Inr 0, w2)" "GitPush \<notin> set (drop (length (trace w1)) (trace w2))"
    "upstream w2 = upstream w1" "local_branch w2 = local_branch w1" by blast
  with p k show "\<exists>w1 w2. push_to_remote env w = (Inr (length (ahead_of_origin w)), w1)
              \<and> upstream w1 = local_branch w \<and> local_branch w1 = local_branch w
              \<and> ahead_of_origin w1 = []
              \<and> push_to_remote env w1 = (Inr 0, w2)
              \<and> GitPush \<notin> set (drop (length (trace w1)) (trace w2))
              \<and> upstream w2 = upstream w1 \<and> local_branch w2 = local_branch w1" by blast
next
  assume h: "\<not> DEBUG env \<and> cloned w \<and> ahead_of_origin w \<noteq> [] \<and> \<not> suffix (upstream w) (local_branch w)
        \<and> fails env (tick w) = None \<and> fails env (tick w + 1) = None
        \<and> fails env (tick w + 2) = None \<and> fails env (tick w + 3) = None"
  define w1 where "w1 = w\<lparr>trace := trace w @ [LockAcquire, GitIterCommits, GitPush, LockRelease],
      tick := tick w + 2, lock_held := False\<rparr>"
  define w2 where "w2 = w1\<lparr>trace := trace w1 @ [LockAcquire, GitIterCommits, GitPush, LockRelease],
      tick := tick w1 + 2, lock_held := False\<rparr>"
  from h have p: "push_to_remote env w = (Inr (length (ahead_of_origin w)), w1)"
    by (simp add: push_once w1_def)
  have s: "cloned w1 = cloned w" "ahead_of_origin w1 = ahead_of_origin w" "tick w1 = tick w + 2"
    "upstream w1 = upstream w" "local_branch w1 = local_branch w" "origin_ref w1 = origin_ref w"
    "trace w1 = trace w @ [LockAcquire, GitIterCommits, GitPush, LockRelease]"
    by (simp_all add: w1_def ahead_of_origin_def)
  from h have f: "fails env (tick w1) = None" "fails env (tick w1 + 1) = None"
    by (simp_all add: s eval_nat_numeral)
  from h have c: "\<not> DEBUG env" "cloned w1" "ahead_of_origin w1 \<noteq> []" "\<not> suffix (upstream w1) (local_branch w1)"
    by (simp_all add: s)
  have q: "push_to_remote env w1 = (Inr (length (ahead_of_origin w)), w2)"
    using c(4) by (simp add: push_once[OF c(1-3) f] w2_def s)
  have t: "trace w2 = trace w1 @ [LockAcquire, GitIterCommits, GitPush, LockRelease]"
    "upstream w2 = upstream w" "local_branch w2 = local_branch w"
    by (simp_all add: w2_def s)
  from p q s t
  show "\<exists>w1 w2. push_to_remote env w = (Inr (length (ahead_of_origin w)), w1)
              \<and> drop (length (trace w)) (trace w1) = [LockAcquire, GitIterCommits, GitPush, LockRelease]
              \<and> upstream w1 = upstream w \<and> local_branch w1 = local_branch w \<and> origin_ref w1 = origin_ref w
              \<and> push_to_remote env w1 = (Inr (length (ahead_of_origin w)), w2)
              \<and> drop (length (trace w1)) (trace w2) = [LockAcquire, GitIterCommits, GitPush, LockRelease]
              \<and> upstream w2 = upstream w \<and> local_branch w2 = local_branch w"
    by (intro exI[of _ w1] exI[of _ w2]) simp
next
  assume h: "\<not> DEBUG env \<and> cloned w \<and> ahead_of_origin w \<noteq> []
        \<and> fails env (tick w) = None \<and> fails env (tick w + 1) = Some GitCommandError
        \<and> fails env (tick w + 2) = None \<and> fails env (tick w + 3) = None"
  let ?L = "rebased env (filter (\<lambda>c. c \<notin> set (upstream w)) (local_branch w)) @ upstream w"
  define w1 where "w1 = w\<lparr>upstream := ?L, origin_ref := ?L, local_branch := ?L,
      clone_files := files_at env ?L (clone_files w),
      trace := trace w @ [LockAcquire, GitIterCommits, GitPush, GitPullRebase, GitPush, LockRelease],
      tick := tick w + 4, lock_held := False\<rparr>"
  from h have p: "push_to_remote env w = (Inr (length (ahead_of_origin w)), w1)"
    by (simp add: push_retried w1_def)
  have k: "local_branch w1 = ?L" "upstream w1 = local_branch w1" "ahead_of_origin w1 = []"
    "trace w1 = trace w @ [LockAcquire, GitIterCommits, GitPush, GitPullRebase, GitPush, LockRelease]"
    by (simp_all add: w1_def ahead_of_origin_def)
  from push_nothing_ahead[OF k(3), of env] obtain w2 where
    "push_to_remote env w1 = (Inr 0, w2)" "GitPush \<notin> set (drop (length (trace w1)) (trace w2))" by blast
  with p k show "\<exists>w1 w2. push_to_remote env w = (Inr (length (ahead_of_origin w)), w1)
              \<and> drop (length (trace w)) (trace w1)
                  = [LockAcquire, GitIterCommits, GitPush, GitPullRebase, GitPush, LockRelease]
              \<and> local_branch w1 = ?L
              \<and> upstream w1 = local_branch w1
              \<and> push_to_remote env w1 = (Inr 0, w2)
              \<and> GitPush \<notin> set (drop (length (trace w1)) (trace w2))"
    by (intro exI[of _ w1] exI[of _ w2]) simp
next
  assume h: "\<not> DEBUG env \<and> cloned w \<and> fails env (tick w) \<noteq> None"
  then obtain e where "fails env (tick w) = Some e" by auto
  with h show "\<exists>w1. push_to_remote env w = (Inr 0, w1)
              \<and> drop (length (trace w)) (trace w1) = [LockAcquire, GitIterCommits, LockRelease]
              \<and> upstream w1 = upstream w \<and> local_branch w1 = local_branch w \<and> origin_ref w1 = origin_ref w"
    by (simp add: push_listing_raises)
qed

theorem C9_witness:
  "ahead_of_origin w0 = []
   \<and> (\<exists>w'. push_to_remote env0 w0 = (Inr 0, w') \<and> GitPush \<notin> set (drop (length (trace w0)) (trace w')))
   \<and> (\<exists>w1 w2. push_to_remote env0 w_unpushed = (Inr 1, w1)
          \<and> upstream w1 = [c_local, c_base]
          \<and> push_to_remote env0 w1 = (Inr 0, w2)
          \<and> GitPush \<notin> set (drop (length (trace w1)) (trace w2)))
   \<and> \<not> suffix (upstream w_ahead) (local_branch w_ahead)
   \<and> (\<exists>w1 w2. push_to_remote env0 w_ahead = (Inr 1, w1)
          \<and> upstream w1 = [c_remote, c_base] \<and> local_branch w1 = [c_local, c_base]
          \<and> push_to_remote env0 w1 = (Inr 1, w2)
          \<and> drop (length (trace w1)) (trace w2) = [LockAcquire, GitIterCommits, GitPush, LockRelease]
          \<and> upstream w2 = [c_remote, c_base])
   \<and> (\<exists>w1 w2. push_to_remote env_push_fails w_ahead = (Inr 1, w1)
          \<and> local_branch w1 = [c_local\<lparr>sha := ''b2-rebased''\<rparr>, c_remote, c_base]
          \<and> upstream w1 = local_branch w1
          \<and> push_to_remote env_push_fails w1 = (Inr 0, w2))
   \<and> (\<exists>w1. push_to_remote env_count_fails w_ahead = (Inr 0, w1)
          \<and> drop (length (trace w_ahead)) (trace w1) = [LockAcquire, GitIterCommits, LockRelease]
          \<and> local_branch w1 = [c_local, c_base])"
proof -
  have a0: "ahead_of_origin w0 = []" by (simp add: ahead_of_origin_def w0_def)
  have f0: "fails env0 n = None" for n by (simp add: env0_def)
  note T = C9_push_twice[of w0 env0, THEN conjunct1, rule_format, OF a0]
  have hu: "\<not> DEBUG env0 \<and> cloned w_unpushed \<and> ahead_of_origin w_unpushed \<noteq> []
      \<and> suffix (upstream w_unpushed) (local_branch w_unpushed)
      \<and> fails env0 (tick w_unpushed) = None \<and> fails env0 (tick w_unpushed + 1) = None"
    using unpushed_facts(5) by (simp add: unpushed_facts(1-4) f0)
  have hd: "\<not> DEBUG env0 \<and> cloned w_ahead \<and> ahead_of_origin w_ahead \<noteq> []
      \<and> \<not> suffix (upstream w_ahead) (local_branch w_ahead)
      \<and> fails env0 (tick w_ahead) = None \<and> fails env0 (tick w_ahead + 1) = None
      \<and> fails env0 (tick w_ahead + 2) = None \<and> fails env0 (tick w_ahead + 3) = None"
    using diverged_facts(4) by (simp add: unpushed_facts(1) diverged_facts(1,2) f0)
  note U = C9_push_twice[of w_unpushed env0, THEN conjunct2, THEN conjunct1, rule_format, OF hu]
  note V = C9_push_twice[of w_ahead env0, THEN conjunct2, THEN conjunct2, THEN conjunct1, rule_format, OF hd]
  have U': "\<exists>w1 w2. push_to_remote env0 w_unpushed = (Inr 1, w1)
          \<and> upstream w1 = [c_local, c_base]
          \<and> push_to_remote env0 w1 = (Inr 0, w2)
          \<and> GitPush \<notin> set (drop (length (trace w1)) (trace w2))"
    using U by (auto simp: unpushed_facts)
  have V': "\<exists>w1 w2. push_to_remote env0 w_ahead = (Inr 1, w1)
          \<and> upstream w1 = [c_remote, c_base] \<and> local_branch w1 = [c_local, c_base]
          \<and> push_to_remote env0 w1 = (Inr 1, w2)
          \<and> drop (length (trace w1)) (trace w2) = [LockAcquire, GitIterCommits, GitPush, LockRelease]
          \<and> upstream w2 = [c_remote, c_base]"
    using V by (auto simp: diverged_facts)
  have hr: "\<not> DEBUG env_push_fails \<and> cloned w_ahead \<and> ahead_of_origin w_ahead \<noteq> []
      \<and> fails env_push_fails (tick w_ahead) = None
      \<and> fails env_push_fails (tick w_ahead + 1) = Some GitCommandError
      \<and> fails env_push_fails (tick w_ahead + 2) = None \<and> fails env_push_fails (tick w_ahead + 3) = None"
    by (simp add: diverged_facts(1-3) env_push_fails_def env0_def)
  have hc: "\<not> DEBUG env_count_fails \<and> cloned w_ahead \<and> fails env_count_fails (tick w_ahead) \<noteq> None"
    by (simp add: diverged_facts(1-3) env_count_fails_def env0_def)
  have rb: "rebased env_push_fails (filter (\<lambda>c. c \<notin> set (upstream w_ahead)) (local_branch w_ahead)) @ upstream w_ahead
              = [c_local\<lparr>sha := ''b2-rebased''\<rparr>, c_remote, c_base]"
  proof -
    have "filter (\<lambda>c. c \<notin> set (upstream w_ahead)) (local_branch w_ahead) = [c_local]"
      by (simp add: diverged_facts(5,6) commits_differ)
    moreover have "rebased env_push_fails [c_local] = [c_local\<lparr>sha := ''b2-rebased''\<rparr>]"
      by (simp add: rebased_def env_push_fails_def env0_def c_local_def)
    ultimately show ?thesis by (simp add: diverged_facts(6))
  qed
  note R = C9_push_twice[of w_ahead env_push_fails, THEN conjunct2, THEN conjunct2, THEN conjunct2, THEN conjunct1,
      rule_format, OF hr]
  note L = C9_push_twice[of w_ahead env_count_fails, THEN conjunct2, THEN conjunct2, THEN conjunct2, THEN conjunct2,
      rule_format, OF hc]
  have R': "\<exists>w1 w2. push_to_remote env_push_fails w_ahead = (Inr 1, w1)
          \<and> local_branch w1 = [c_local\<lparr>sha := ''b2-rebased''\<rparr>, c_remote, c_base]
          \<and> upstream w1 = local_branch w1
          \<and> push_to_remote env_push_fails w1 = (Inr 0, w2)"
    using R unfolding rb by (auto simp: diverged_facts(2))
  have L': "\<exists>w1. push_to_remote env_count_fails w_ahead = (Inr 0, w1)
          \<and> drop (length (trace w_ahead)) (trace w1) = [LockAcquire, GitIterCommits, LockRelease]
          \<and> local_branch w1 = [c_local, c_base]"
    using L by (auto simp: diverged_facts(5))
  from a0 T U' diverged_facts(4) V' R' L' show ?thesis by blast
qed

section \<open>C10: the round trip of the file format\<close>

lemma roundtrip_article: "roundtrip_holds env_article_yaml ''article'' article_fm ''Body text''"
  by code_simp

lemma dashes_generated: "generate_markdown ''article'' dashes_fm ''Body text'' = (Some dashes_md, [])"
  by code_simp

lemma dashes_opening: "dashes_md \<noteq> []" "take 3 dashes_md = ''---''" by code_simp+

lemma dashes_cut: "py_find dashes_md ''---'' 3 = Some 18" by code_simp

lemma dashes_title_line:
  "take 32 dashes_md = ''---'' @ [CHR 0x0A] @ ''title: '' @ [CHR 0x22] @ ''Money --- a primer'' @ [CHR 0x22, CHR 0x0A]"
  by code_simp

lemma dashes_yaml_text: "py_strip (take (18 - 3) (drop 3 dashes_md)) = ''title: '' @ [CHR 0x22] @ ''Money''"
  by code_simp

lemma dashes_body_text: "take 10 (py_strip (drop (18 + 3) dashes_md)) = ''a primer'' @ [CHR 0x22, CHR 0x0A]"
  by code_simp

lemma dashes_body_differs: "py_strip (drop (18 + 3) dashes_md) \<noteq> py_strip ''Body text''"
  by code_simp

lemma dashes_parsed:
  "parse_frontmatter env dashes_md =
     (case yaml_safe_load env (''title: '' @ [CHR 0x22] @ ''Money'') of
        Inl e \<Rightarrow> (if e = YAMLError then Inr (None, dashes_md) else Inl e)
      | Inr (PDict frontmatter) \<Rightarrow> Inr (Some frontmatter, py_strip (drop (18 + 3) dashes_md))
      | Inr _ \<Rightarrow> Inr (None, dashes_md))"
  unfolding parse_frontmatter_def Let_def
  using dashes_opening dashes_cut dashes_yaml_text by simp

text \<open>
  C10. The claim is that a generated file parses back to its frontmatter and body. The
  parser takes the first \<open>---\<close> after the opening one for the end of the frontmatter,
  wherever it stands. The title \<open>Money --- a primer\<close> validates and is written in
  quotes on the second line of the file; the parser cuts the file inside it, at
  index 18. Whatever the YAML parser makes of the text before the cut, the round trip
  fails: either no frontmatter comes back, or the body that comes back is the rest of
  the frontmatter.
\<close>

theorem C10_roundtrip_breaks_on_dashes:
  "generate_markdown ''article'' dashes_fm ''Body text'' = (Some dashes_md, [])
   \<and> take 32 dashes_md = ''---'' @ [CHR 0x0A] @ ''title: '' @ [CHR 0x22] @ ''Money --- a primer'' @ [CHR 0x22, CHR 0x0A]
   \<and> py_find dashes_md ''---'' 3 = Some 18
   \<and> \<not> roundtrip_holds env ''article'' dashes_fm ''Body text''"
proof -
  have "\<not> roundtrip_holds env ''article'' dashes_fm ''Body text''"
  proof (cases "yaml_safe_load env (''title: '' @ [CHR 0x22] @ ''Money'')")
    case (Inl e)
    then show ?thesis
      by (simp add: roundtrip_holds_def dashes_generated dashes_parsed)
  next
    case (Inr v)
    then show ?thesis
      using dashes_body_differs
      by (cases v) (simp_all add: roundtrip_holds_def dashes_generated dashes_parsed)
  qed
  with dashes_generated dashes_title_line dashes_cut show ?thesis by blast
qed

end
